theory Spec2Isabelle
  imports Complex_Main
begin

section \<open>Data model\<close>

text \<open>
  The two entry points \<^verbatim>\<open>pretrain.py\<close> and \<^verbatim>\<open>finetune.py\<close> drive an agent and two
  environment instances. The agent, the environments, the replay buffer, the logger and the
  file system are collaborators of the loop: the agent and the environments are state
  machines given by the functions of a \<open>collab\<close> record, and every call the workspace
  makes to a collaborator is appended to a trace, so that "how often" and "in which order"
  are statements about a list of events.
\<close>

datatype step_type = FIRST | MID | LAST

record 'o time_step =
  step_type :: step_type
  reward :: real
  observation :: 'o

text \<open>\<^verbatim>\<open>time_step.last()\<close> of dm\_env.\<close>

definition last_ts :: "'o time_step \<Rightarrow> bool" where
  "last_ts ts = (step_type ts = LAST)"

text \<open>The exceptions the modelled code can raise or let through.\<close>

datatype exn =
    AssertionError | FileExistsError | FileNotFoundError | IsADirectoryError | KeyError
  | KeyboardInterrupt | SystemExit | TypeError | ValueError | ZeroDivisionError
  | OtherError

text \<open>
  How a call ended: it returned, it raised, or the fuel of the model ran out before the
  loop ended (\<open>Diverged\<close>). Every operation returns the state it reached with the status,
  because the Python objects keep the mutations made before an exception.
\<close>

datatype status = Returned | Raised exn | Diverged

text \<open>Values stored in a snapshot payload (a Python dict with string keys).\<close>

datatype 'g pyval = AgentVal 'g | IntVal int

type_synonym 'g payload = "string \<rightharpoonup> 'g pyval"

record config =
  num_train_frames :: real
  num_seed_frames :: real
  eval_every_frames :: int
  action_repeat :: int
  num_eval_episodes :: int
  snapshots :: "int list"
  snapshot_dir :: string
  snapshot :: string
  domain :: string
  snapshot_ts :: int
  snapshot_base_dir :: string
  obs_type :: string
  task :: string
  agent_name :: string
  seed :: int

datatype env_id = TrainEnv | EvalEnv

datatype ('o, 'a, 'm) event =
    EnvReset env_id "exn + 'o time_step"
  | EnvStep env_id 'a "exn + 'o time_step"
  | InitMeta 'm
  | UpdateMeta int
  | Act 'm int bool
  | Update int
  | InitFrom
  | ReplayAdd
  | SaveSnapshot string
  | LogDump string int "(string \<times> real) list"
  | LogMetrics int
  | LogEvalTotalTime int
  | Logging string string

text \<open>
  The collaborators. An environment call returns a TimeStep or raises; the agent's
  operations may change the agent (its networks, its random state). \<open>ag_update\<close>
  receives the replay storage it samples its batch from and returns the metrics.
\<close>

record ('e, 'g, 'o, 'a, 'm) collab =
  env_reset :: "'e \<Rightarrow> (exn + 'o time_step) \<times> 'e"
  env_step :: "'a \<Rightarrow> 'e \<Rightarrow> (exn + 'o time_step) \<times> 'e"
  ag_init_meta :: "'g \<Rightarrow> 'm \<times> 'g"
  ag_update_meta :: "'m \<Rightarrow> int \<Rightarrow> 'o time_step \<Rightarrow> 'g \<Rightarrow> 'm \<times> 'g"
  ag_act :: "'o \<Rightarrow> 'm \<Rightarrow> int \<Rightarrow> bool \<Rightarrow> 'g \<Rightarrow> 'a \<times> 'g"
  ag_update :: "('o time_step \<times> 'm) list \<Rightarrow> int \<Rightarrow> 'g \<Rightarrow> (string \<times> real) list \<times> 'g"
  ag_init_from :: "'g \<Rightarrow> 'g \<Rightarrow> 'g"

text \<open>
  The Workspace object together with the part of the world it writes to (the snapshot
  files and directories). \<open>global_step\<close> and \<open>global_episode\<close> are the attributes
  \<^verbatim>\<open>_global_step\<close> and \<^verbatim>\<open>_global_episode\<close>; the properties of the same names only
  read them.
\<close>

record ('e, 'g, 'o, 'a, 'm) workspace =
  cfg :: config
  work_dir :: string
  agent :: 'g
  train_env :: 'e
  eval_env :: 'e
  replay_storage :: "('o time_step \<times> 'm) list"
  global_step :: int
  global_episode :: int
  dirs :: "string set"
  files :: "string \<rightharpoonup> 'g payload"
  trace :: "('o, 'a, 'm) event list"

definition global_frame :: "('e, 'g, 'o, 'a, 'm) workspace \<Rightarrow> int" where
  "global_frame w = global_step w * action_repeat (cfg w)"

definition emit ::
  "('o, 'a, 'm) event \<Rightarrow> ('e, 'g, 'o, 'a, 'm) workspace \<Rightarrow> ('e, 'g, 'o, 'a, 'm) workspace" where
  "emit e w = w\<lparr>trace := trace w @ [e]\<rparr>"

text \<open>The events a call appended: the trace after it without the trace before it.\<close>

definition new_events ::
  "('e, 'g, 'o, 'a, 'm) workspace \<Rightarrow> ('e, 'g, 'o, 'a, 'm) workspace \<Rightarrow> ('o, 'a, 'm) event list" where
  "new_events w w' = drop (length (trace w)) (trace w')"

fun is_update :: "('o, 'a, 'm) event \<Rightarrow> bool" where
  "is_update (Update _) = True"
| "is_update _ = False"

fun is_train_env :: "('o, 'a, 'm) event \<Rightarrow> bool" where
  "is_train_env (EnvReset TrainEnv _) = True"
| "is_train_env (EnvStep TrainEnv _ _) = True"
| "is_train_env _ = False"

fun is_env_step :: "env_id \<Rightarrow> ('o, 'a, 'm) event \<Rightarrow> bool" where
  "is_env_step i (EnvStep j _ _) = (i = j)"
| "is_env_step _ _ = False"

fun is_env_reset :: "env_id \<Rightarrow> ('o, 'a, 'm) event \<Rightarrow> bool" where
  "is_env_reset i (EnvReset j _) = (i = j)"
| "is_env_reset _ _ = False"


fun is_save :: "('o, 'a, 'm) event \<Rightarrow> bool" where
  "is_save (SaveSnapshot _) = True"
| "is_save _ = False"

definition count_ev :: "(('o, 'a, 'm) event \<Rightarrow> bool) \<Rightarrow> ('o, 'a, 'm) event list \<Rightarrow> nat" where
  "count_ev P evs = length (filter P evs)"

section \<open>Cadence predicates\<close>

text \<open>
  Modelled from the spec: \<^verbatim>\<open>utils.Until\<close> and \<^verbatim>\<open>utils.Every\<close> are imported by both
  entry points and are not among the source files. The specification describes them
  twice. Section 8: "Until(T, repeat) is true for step counts 0..T/repeat - 1 (in
  repeat-scaled units) and false thereafter, for all T, repeat > 0; Every(I, repeat) is
  true exactly at step counts that are positive multiples of I/repeat". Section 4.1
  writes the tests as "floor(step / every) < ceil(total / every)" and "floor(step/denom)
  is non-zero and divisible by floor(interval/denom)", for budgets "in frame units,
  internally divided by action_repeat". The two descriptions agree when the second
  argument is 1. For a larger one they agree only if the step count is not divided
  again: the loop passes \<^verbatim>\<open>global_step\<close>, the number of environment steps, which is a
  count in repeat-scaled units already. The definitions follow section 8 and compare
  that count with the scaled bound as it is; this is the reading under which the
  warm-up of section 4.4 lasts exactly while \<^verbatim>\<open>global_frame < num_seed_frames\<close>. The
  total is a real number because the resumed budgets are floats. Both predicates are
  meant for a positive second argument. Where floor(interval / denom) is 0 no step count
  is a positive multiple of it, and \<open>Every\<close> is false at every step.
\<close>

definition Until :: "real \<Rightarrow> int \<Rightarrow> int \<Rightarrow> bool" where
  "Until total' every step = (step < \<lceil>total' / real_of_int every\<rceil>)"

definition Every :: "int \<Rightarrow> int \<Rightarrow> int \<Rightarrow> bool" where
  "Every interval denom step = (0 < step \<and> (interval div denom) dvd step)"

section \<open>Sequencing\<close>

definition bind_st :: "status \<times> 'x \<Rightarrow> ('x \<Rightarrow> status \<times> 'x) \<Rightarrow> status \<times> 'x" where
  "bind_st r f = (case r of (Returned, x) \<Rightarrow> f x | (s, x) \<Rightarrow> (s, x))"

section \<open>Evaluation loop\<close>

text \<open>
  \<^verbatim>\<open>Workspace.eval\<close> (pretrain.py 159-180, finetune.py 159-188). The accumulators are
  \<open>(step, total_reward)\<close> in the inner loop and \<open>(step, episode, total_reward)\<close> in the
  outer one. The video recorder of the fine-tuning variant and its log of the skill
  index are presentation only and are left out.
\<close>

fun eval_steps ::
  "nat \<Rightarrow> ('e, 'g, 'o, 'a, 'm) collab \<Rightarrow> 'm \<Rightarrow> 'o time_step \<Rightarrow> int \<times> real \<Rightarrow>
   ('e, 'g, 'o, 'a, 'm) workspace \<Rightarrow> status \<times> (int \<times> real) \<times> ('e, 'g, 'o, 'a, 'm) workspace" where
  "eval_steps 0 c meta ts acc w = (Diverged, acc, w)"
| "eval_steps (Suc n) c meta ts acc w =
     (if last_ts ts then (Returned, acc, w)
      else
        let (action, g) = ag_act c (observation ts) meta (global_step w) True (agent w);
            w1 = emit (Act meta (global_step w) True) (w\<lparr>agent := g\<rparr>);
            (r, e) = env_step c action (eval_env w1);
            w2 = emit (EnvStep EvalEnv action r) (w1\<lparr>eval_env := e\<rparr>)
        in case r of
             Inl x \<Rightarrow> (Raised x, acc, w2)
           | Inr ts' \<Rightarrow> eval_steps n c meta ts' (fst acc + 1, snd acc + reward ts') w2)"

fun eval_episodes ::
  "nat \<Rightarrow> ('e, 'g, 'o, 'a, 'm) collab \<Rightarrow> 'm \<Rightarrow> int \<times> int \<times> real \<Rightarrow>
   ('e, 'g, 'o, 'a, 'm) workspace \<Rightarrow>
   status \<times> (int \<times> int \<times> real) \<times> ('e, 'g, 'o, 'a, 'm) workspace" where
  "eval_episodes 0 c meta acc w = (Diverged, acc, w)"
| "eval_episodes (Suc n) c meta (step, episode, total_reward) w =
     (if Until (real_of_int (num_eval_episodes (cfg w))) 1 episode then
        let (r, e) = env_reset c (eval_env w);
            w1 = emit (EnvReset EvalEnv r) (w\<lparr>eval_env := e\<rparr>)
        in case r of
             Inl x \<Rightarrow> (Raised x, (step, episode, total_reward), w1)
           | Inr ts \<Rightarrow>
               (case eval_steps n c meta ts (step, total_reward) w1 of
                  (Returned, (step', total_reward'), w2) \<Rightarrow>
                    eval_episodes n c meta (step', episode + 1, total_reward') w2
                | (s, (step', total_reward'), w2) \<Rightarrow> (s, (step', episode, total_reward'), w2))
      else (Returned, (step, episode, total_reward), w))"

definition eval ::
  "nat \<Rightarrow> ('e, 'g, 'o, 'a, 'm) collab \<Rightarrow> ('e, 'g, 'o, 'a, 'm) workspace \<Rightarrow>
   status \<times> ('e, 'g, 'o, 'a, 'm) workspace" where
  "eval n c w =
     (let (meta, g) = ag_init_meta c (agent w);
          w0 = emit (InitMeta meta) (w\<lparr>agent := g\<rparr>)
      in case eval_episodes n c meta (0, 0, 0) w0 of
           (Returned, (step, episode, total_reward), w1) \<Rightarrow>
             if episode = 0 then (Raised ZeroDivisionError, w1)
             else (Returned,
                   emit (LogDump ''eval'' (global_frame w1)
                     [(''episode_reward'', total_reward / real_of_int episode),
                      (''episode_length'',
                         real_of_int (step * action_repeat (cfg w1)) / real_of_int episode),
                      (''episode'', real_of_int (global_episode w1)),
                      (''step'', real_of_int (global_step w1))]) w1)
         | (s, acc, w1) \<Rightarrow> (s, w1))"

section \<open>Floats\<close>

text \<open>
  Python's \<^verbatim>\<open>float\<close> is the binary64 format of IEEE 754: a sign, 53 significant bits
  and an exponent. The result of \<^verbatim>\<open>/\<close>, \<^verbatim>\<open>+\<close> and \<^verbatim>\<open>-\<close> is the exact result rounded to
  the nearest float, a tie going to the even significand, and an int operand of a float
  operation is converted to the nearest float first. \<open>py_float x\<close> is the float nearest
  to the real number \<open>x\<close>: the magnitude is scaled by powers of two until it has 53 bits
  before the binary point (by at most 1074 doublings, because the smallest floats are
  the multiples of \<^verbatim>\<open>2 ** -1074\<close>), rounded to an integer and scaled back. Magnitudes
  of \<^verbatim>\<open>2 ** 1024\<close> and more, where Python gives \<^verbatim>\<open>inf\<close> or raises OverflowError, are
  outside the model.
\<close>

definition round_half_even :: "real \<Rightarrow> int" where
  "round_half_even q =
     (let f = \<lfloor>q\<rfloor>; d = q - real_of_int f
      in if d < 1 / 2 then f else if 1 / 2 < d then f + 1 else if even f then f else f + 1)"

fun scale_up :: "nat \<Rightarrow> real \<Rightarrow> int \<Rightarrow> real \<times> int" where
  "scale_up 0 q e = (q, e)"
| "scale_up (Suc n) q e = (if q < 2 ^ 52 then scale_up n (2 * q) (e - 1) else (q, e))"

fun scale_down :: "nat \<Rightarrow> real \<Rightarrow> int \<Rightarrow> real \<times> int" where
  "scale_down 0 q e = (q, e)"
| "scale_down (Suc n) q e = (if 2 ^ 53 \<le> q then scale_down n (q / 2) (e + 1) else (q, e))"

definition pow2 :: "int \<Rightarrow> real" where
  "pow2 e = (if 0 \<le> e then 2 ^ nat e else 1 / 2 ^ nat (- e))"

definition py_float :: "real \<Rightarrow> real" where
  "py_float x =
     (if x = 0 then 0
      else let (q, e) = (if 2 ^ 53 \<le> \<bar>x\<bar> then scale_down 971 \<bar>x\<bar> 0
                         else scale_up 1074 \<bar>x\<bar> 0)
           in sgn x * real_of_int (round_half_even q) * pow2 e)"

section \<open>Paths and snapshot files\<close>

text \<open>
  A path is the string pathlib prints for it. \<open>Path\<close> is the constructor of a pure
  POSIX path: it splits the text at the slashes, drops the empty components and the
  components \<^verbatim>\<open>.\<close>, keeps \<^verbatim>\<open>..\<close>, keeps one leading slash (two when the text starts
  with exactly two) and prints \<^verbatim>\<open>.\<close> for the empty path. \<open>joinpath\<close> is the \<^verbatim>\<open>/\<close>
  of pathlib on a path and a string: an absolute right operand replaces the left one.
  \<open>str_int\<close> is the decimal text an f-string produces for an int. Files and directories
  live in two tables whose keys are paths; a path exists when it is in one of them. A
  relative path is a key of its own (the working directory does not change during a
  run), and the tables are flat: the directories above a path are not looked at.
\<close>

fun split_slash :: "string \<Rightarrow> string list" where
  "split_slash [] = [[]]"
| "split_slash (x # xs) =
     (if x = CHR ''/'' then [] # split_slash xs
      else (case split_slash xs of [] \<Rightarrow> [[x]] | y # ys \<Rightarrow> (x # y) # ys))"

definition path_parts :: "string \<Rightarrow> string list" where
  "path_parts p = filter (\<lambda>s. s \<noteq> [] \<and> s \<noteq> ''.'') (split_slash p)"

definition path_root :: "string \<Rightarrow> string" where
  "path_root p =
     (if take 2 p = ''//'' \<and> take 3 p \<noteq> ''///'' then ''//''
      else if take 1 p = ''/'' then ''/'' else [])"

fun join_slash :: "string list \<Rightarrow> string" where
  "join_slash [] = []"
| "join_slash [s] = s"
| "join_slash (s # t # ts) = s @ ''/'' @ join_slash (t # ts)"

definition Path :: "string \<Rightarrow> string" where
  "Path p = (let s = path_root p @ join_slash (path_parts p) in if s = [] then ''.'' else s)"

definition joinpath :: "string \<Rightarrow> string \<Rightarrow> string" where
  "joinpath a b =
     (let b' = Path b
      in if path_root b' \<noteq> [] then b'
         else if b' = ''.'' then a
         else if a = [] \<or> a = ''.'' then b'
         else if last a = CHR ''/'' then a @ b'
         else a @ ''/'' @ b')"

definition digit :: "nat \<Rightarrow> char" where
  "digit n = ''0123456789'' ! n"

function str_nat :: "nat \<Rightarrow> string" where
  "str_nat n = (if n < 10 then [digit n] else str_nat (n div 10) @ [digit (n mod 10)])"
  by pat_completeness auto
termination
  by (relation "measure (\<lambda>n. n)") auto

declare str_nat.simps [simp del]

definition str_int :: "int \<Rightarrow> string" where
  "str_int i = (if i < 0 then CHR ''-'' # str_nat (nat (- i)) else str_nat (nat i))"

definition path_exists :: "('e, 'g, 'o, 'a, 'm) workspace \<Rightarrow> string \<Rightarrow> bool" where
  "path_exists w p = (files w p \<noteq> None \<or> p \<in> dirs w)"

definition is_dir :: "('e, 'g, 'o, 'a, 'm) workspace \<Rightarrow> string \<Rightarrow> bool" where
  "is_dir w p = (p \<in> dirs w)"

section \<open>Checkpoint manager of the pretraining workspace\<close>

text \<open>\<^verbatim>\<open>self.__dict__[k]\<close> for the attributes a snapshot stores.\<close>

definition getattr :: "('e, 'g, 'o, 'a, 'm) workspace \<Rightarrow> string \<Rightarrow> 'g pyval option" where
  "getattr w k =
     (if k = ''agent'' then Some (AgentVal (agent w))
      else if k = ''_global_step'' then Some (IntVal (global_step w))
      else if k = ''_global_episode'' then Some (IntVal (global_episode w))
      else None)"

definition keys_to_save :: "string list" where
  "keys_to_save = [''agent'', ''_global_step'', ''_global_episode'']"

text \<open>The file \<^verbatim>\<open>save_snapshot\<close> writes to: lines 270 and 272 of pretrain.py.\<close>

definition snapshot_path :: "('e, 'g, 'o, 'a, 'm) workspace \<Rightarrow> string" where
  "snapshot_path w =
     joinpath (joinpath (work_dir w) (snapshot_dir (cfg w)))
       (''snapshot_'' @ str_int (global_frame w) @ ''.pt'')"

text \<open>
  \<^verbatim>\<open>Workspace.save_snapshot\<close> (pretrain.py 269-277). \<^verbatim>\<open>mkdir(exist_ok=True)\<close> accepts an
  existing directory and raises FileExistsError when the path is a regular file;
  opening the snapshot for writing raises IsADirectoryError when the path is a
  directory, after the directory of the snapshots was made. The event \<open>SaveSnapshot\<close>
  stands for the write of the file.
\<close>

definition save_snapshot ::
  "('e, 'g, 'o, 'a, 'm) workspace \<Rightarrow> status \<times> ('e, 'g, 'o, 'a, 'm) workspace" where
  "save_snapshot w =
     (let snapshot_dir' = joinpath (work_dir w) (snapshot_dir (cfg w))
      in if files w snapshot_dir' \<noteq> None then (Raised FileExistsError, w)
         else
           let w1 = w\<lparr>dirs := insert snapshot_dir' (dirs w)\<rparr>;
               snapshot' = joinpath snapshot_dir'
                             (''snapshot_'' @ str_int (global_frame w1) @ ''.pt'');
               payload = (\<lambda>k. if k \<in> set keys_to_save then getattr w1 k else None)
           in if snapshot' \<in> dirs w1 then (Raised IsADirectoryError, w1)
              else (Returned,
                    emit (SaveSnapshot snapshot')
                      (w1\<lparr>files := (files w1)(snapshot' \<mapsto> payload)\<rparr>)))"

text \<open>
  \<^verbatim>\<open>Workspace.load_snapshot\<close> (pretrain.py 259-267). The stored step count is an int;
  \<^verbatim>\<open>payload["_global_step"] / 10\<close> is Python's true division and gives a float, the sum
  in the next line converts the int to a float and adds two floats, and the subtraction
  converts the budget to a float when the configuration holds an int. The counters of
  the model are ints: a payload that stores something else under \<^verbatim>\<open>_global_episode\<close>
  is reported by TypeError at the assignment, where Python would keep the object and
  raise at the next \<^verbatim>\<open>+= 1\<close>.
\<close>

definition load_snapshot ::
  "('e, 'g, 'o, 'a, 'm) collab \<Rightarrow> ('e, 'g, 'o, 'a, 'm) workspace \<Rightarrow>
   status \<times> ('e, 'g, 'o, 'a, 'm) workspace" where
  "load_snapshot c w =
     (let snapshot_file = Path (snapshot (cfg w))
      in case files w snapshot_file of
           None \<Rightarrow> (Raised (if is_dir w snapshot_file then IsADirectoryError
                             else FileNotFoundError), w)
         | Some payload \<Rightarrow>
             (case payload ''agent'' of
                None \<Rightarrow> (Raised KeyError, w)
              | Some (IntVal _) \<Rightarrow> (Raised TypeError, w)
              | Some (AgentVal other) \<Rightarrow>
                  let w1 = emit InitFrom (w\<lparr>agent := ag_init_from c other (agent w)\<rparr>) in
                  (case payload ''_global_step'' of
                     None \<Rightarrow> (Raised KeyError, w1)
                   | Some (AgentVal _) \<Rightarrow> (Raised TypeError, w1)
                   | Some (IntVal S) \<Rightarrow>
                       let w2 = w1\<lparr>cfg := (cfg w1)\<lparr>num_seed_frames :=
                                  py_float (real_of_int S / 10)\<rparr>\<rparr>;
                           w3 = w2\<lparr>cfg := (cfg w2)\<lparr>num_train_frames :=
                                  py_float
                                    (py_float (num_train_frames (cfg w2))
                                       - py_float (py_float (real_of_int S)
                                                     + num_seed_frames (cfg w2)))\<rparr>\<rparr>
                       in (case payload ''_global_episode'' of
                             None \<Rightarrow> (Raised KeyError, w3)
                           | Some (AgentVal _) \<Rightarrow> (Raised TypeError, w3)
                           | Some (IntVal E) \<Rightarrow> (Returned, w3\<lparr>global_episode := E\<rparr>)))))"

section \<open>Training loop\<close>

text \<open>
  \<^verbatim>\<open>Workspace.train\<close> (pretrain.py 182-257, finetune.py 190-267). The two files differ
  in two places only: the pretraining loop writes a snapshot at the configured frame
  milestones and once more after the loop; the fine-tuning loop records videos. One
  definition, with the entry point as a parameter, covers both. Wall-clock values (fps,
  total time) are not part of the logged events.
\<close>

datatype variant = Pretrain | Finetune

record ('o, 'm) locals =
  episode_step :: int
  episode_reward :: real
  time_step :: "'o time_step"
  meta :: 'm
  metrics :: "(string \<times> real) list option"

definition replay_add ::
  "'o time_step \<Rightarrow> 'm \<Rightarrow> ('e, 'g, 'o, 'a, 'm) workspace \<Rightarrow> ('e, 'g, 'o, 'a, 'm) workspace" where
  "replay_add ts m w = emit ReplayAdd (w\<lparr>replay_storage := replay_storage w @ [(ts, m)]\<rparr>)"

text \<open>Lines 218-224: reset the environment, a fresh meta, the first transition.\<close>

definition reset_episode ::
  "('e, 'g, 'o, 'a, 'm) collab \<Rightarrow> ('o, 'm) locals \<times> ('e, 'g, 'o, 'a, 'm) workspace \<Rightarrow>
   status \<times> ('o, 'm) locals \<times> ('e, 'g, 'o, 'a, 'm) workspace" where
  "reset_episode c lw =
     (let (l, w) = lw;
          (r, e) = env_reset c (train_env w);
          w1 = emit (EnvReset TrainEnv r) (w\<lparr>train_env := e\<rparr>)
      in case r of
           Inl x \<Rightarrow> (Raised x, (l, w1))
         | Inr ts \<Rightarrow>
             let (m, g) = ag_init_meta c (agent w1);
                 w2 = emit (InitMeta m) (w1\<lparr>agent := g\<rparr>);
                 w3 = replay_add ts m w2
             in (Returned,
                 (l\<lparr>time_step := ts, meta := m, episode_step := 0, episode_reward := 0\<rparr>, w3)))"

text \<open>Lines 199-224: the episode boundary.\<close>

definition episode_boundary ::
  "('e, 'g, 'o, 'a, 'm) collab \<Rightarrow> ('o, 'm) locals \<times> ('e, 'g, 'o, 'a, 'm) workspace \<Rightarrow>
   status \<times> ('o, 'm) locals \<times> ('e, 'g, 'o, 'a, 'm) workspace" where
  "episode_boundary c lw =
     (let (l, w) = lw in
      if last_ts (time_step l) then
        let w1 = w\<lparr>global_episode := global_episode w + 1\<rparr>;
            w2 = (case metrics l of
                    None \<Rightarrow> w1
                  | Some _ \<Rightarrow>
                      emit (LogDump ''train'' (global_frame w1)
                        [(''episode_reward'', episode_reward l),
                         (''episode_length'',
                            real_of_int (episode_step l * action_repeat (cfg w1))),
                         (''episode'', real_of_int (global_episode w1)),
                         (''buffer_size'', real (length (replay_storage w1))),
                         (''step'', real_of_int (global_step w1))]) w1)
        in reset_episode c (l, w2)
      else (Returned, (l, w)))"

text \<open>Lines 226-227 of pretrain.py; the fine-tuning loop has no such step.\<close>

definition try_snapshot ::
  "variant \<Rightarrow> ('o, 'm) locals \<times> ('e, 'g, 'o, 'a, 'm) workspace \<Rightarrow>
   status \<times> ('o, 'm) locals \<times> ('e, 'g, 'o, 'a, 'm) workspace" where
  "try_snapshot v lw =
     (let (l, w) = lw in
      if v = Pretrain \<and> global_frame w \<in> set (snapshots (cfg w))
      then (case save_snapshot w of (s, w') \<Rightarrow> (s, (l, w'))) else (Returned, (l, w)))"

text \<open>Lines 229-234: the evaluation cadence.\<close>

definition try_eval ::
  "nat \<Rightarrow> (int \<Rightarrow> bool) \<Rightarrow> ('e, 'g, 'o, 'a, 'm) collab \<Rightarrow>
   ('o, 'm) locals \<times> ('e, 'g, 'o, 'a, 'm) workspace \<Rightarrow>
   status \<times> ('o, 'm) locals \<times> ('e, 'g, 'o, 'a, 'm) workspace" where
  "try_eval n eval_every_step c lw =
     (let (l, w) = lw in
      if eval_every_step (global_step w) then
        (case eval n c (emit (LogEvalTotalTime (global_frame w)) w) of (s, w') \<Rightarrow> (s, (l, w')))
      else (Returned, (l, w)))"

text \<open>Lines 236-241: update the meta and sample the action.\<close>

definition select_action ::
  "('e, 'g, 'o, 'a, 'm) collab \<Rightarrow> ('o, 'm) locals \<times> ('e, 'g, 'o, 'a, 'm) workspace \<Rightarrow>
   'a \<times> ('o, 'm) locals \<times> ('e, 'g, 'o, 'a, 'm) workspace" where
  "select_action c lw =
     (let (l, w) = lw;
          (m, g) = ag_update_meta c (meta l) (global_step w) (time_step l) (agent w);
          w1 = emit (UpdateMeta (global_step w)) (w\<lparr>agent := g\<rparr>);
          (action, g') = ag_act c (observation (time_step l)) m (global_step w1) False (agent w1);
          w2 = emit (Act m (global_step w1) False) (w1\<lparr>agent := g'\<rparr>)
      in (action, (l\<lparr>meta := m\<rparr>, w2)))"

text \<open>Lines 243-248: the learning update, outside the seed phase.\<close>

definition try_update ::
  "(int \<Rightarrow> bool) \<Rightarrow> ('e, 'g, 'o, 'a, 'm) collab \<Rightarrow>
   ('o, 'm) locals \<times> ('e, 'g, 'o, 'a, 'm) workspace \<Rightarrow>
   ('o, 'm) locals \<times> ('e, 'g, 'o, 'a, 'm) workspace" where
  "try_update seed_until_step c lw =
     (let (l, w) = lw in
      if \<not> seed_until_step (global_step w) then
        let (ms, g) = ag_update c (replay_storage w) (global_step w) (agent w);
            w1 = emit (Update (global_step w)) (w\<lparr>agent := g\<rparr>);
            w2 = emit (LogMetrics (global_frame w1)) w1
        in (l\<lparr>metrics := Some ms\<rparr>, w2)
      else (l, w))"

text \<open>Lines 250-255: the environment step and the counters.\<close>

definition env_transition ::
  "('e, 'g, 'o, 'a, 'm) collab \<Rightarrow> 'a \<Rightarrow> ('o, 'm) locals \<times> ('e, 'g, 'o, 'a, 'm) workspace \<Rightarrow>
   status \<times> ('o, 'm) locals \<times> ('e, 'g, 'o, 'a, 'm) workspace" where
  "env_transition c action lw =
     (let (l, w) = lw;
          (r, e) = env_step c action (train_env w);
          w1 = emit (EnvStep TrainEnv action r) (w\<lparr>train_env := e\<rparr>)
      in case r of
           Inl x \<Rightarrow> (Raised x, (l, w1))
         | Inr ts \<Rightarrow>
             let w2 = replay_add ts (meta l) w1
             in (Returned,
                 (l\<lparr>time_step := ts, episode_reward := episode_reward l + reward ts,
                    episode_step := episode_step l + 1\<rparr>,
                  w2\<lparr>global_step := global_step w2 + 1\<rparr>)))"

text \<open>The part of a tick before the update: boundary, snapshot, evaluation.\<close>

definition tick_prelude ::
  "variant \<Rightarrow> nat \<Rightarrow> (int \<Rightarrow> bool) \<Rightarrow> ('e, 'g, 'o, 'a, 'm) collab \<Rightarrow>
   ('o, 'm) locals \<times> ('e, 'g, 'o, 'a, 'm) workspace \<Rightarrow>
   status \<times> ('o, 'm) locals \<times> ('e, 'g, 'o, 'a, 'm) workspace" where
  "tick_prelude v n eval_every_step c lw =
     bind_st (bind_st (episode_boundary c lw) (try_snapshot v)) (try_eval n eval_every_step c)"

text \<open>One iteration of the \<^verbatim>\<open>while\<close> loop.\<close>

definition train_tick ::
  "variant \<Rightarrow> nat \<Rightarrow> (int \<Rightarrow> bool) \<Rightarrow> (int \<Rightarrow> bool) \<Rightarrow> ('e, 'g, 'o, 'a, 'm) collab \<Rightarrow>
   ('o, 'm) locals \<times> ('e, 'g, 'o, 'a, 'm) workspace \<Rightarrow>
   status \<times> ('o, 'm) locals \<times> ('e, 'g, 'o, 'a, 'm) workspace" where
  "train_tick v n seed_until_step eval_every_step c lw =
     bind_st (tick_prelude v n eval_every_step c lw)
       (\<lambda>lw1. let (action, lw2) = select_action c lw1
              in env_transition c action (try_update seed_until_step c lw2))"

fun train_loop ::
  "nat \<Rightarrow> variant \<Rightarrow> (int \<Rightarrow> bool) \<Rightarrow> (int \<Rightarrow> bool) \<Rightarrow> (int \<Rightarrow> bool) \<Rightarrow>
   ('e, 'g, 'o, 'a, 'm) collab \<Rightarrow> ('o, 'm) locals \<times> ('e, 'g, 'o, 'a, 'm) workspace \<Rightarrow>
   status \<times> ('o, 'm) locals \<times> ('e, 'g, 'o, 'a, 'm) workspace" where
  "train_loop 0 v train_until_step seed_until_step eval_every_step c lw = (Diverged, lw)"
| "train_loop (Suc n) v train_until_step seed_until_step eval_every_step c lw =
     (if train_until_step (global_step (snd lw)) then
        bind_st (train_tick v n seed_until_step eval_every_step c lw)
          (train_loop n v train_until_step seed_until_step eval_every_step c)
      else (Returned, lw))"

definition train ::
  "variant \<Rightarrow> nat \<Rightarrow> ('e, 'g, 'o, 'a, 'm) collab \<Rightarrow> ('e, 'g, 'o, 'a, 'm) workspace \<Rightarrow>
   status \<times> ('e, 'g, 'o, 'a, 'm) workspace" where
  "train v n c w =
     (let train_until_step = Until (num_train_frames (cfg w)) (action_repeat (cfg w));
          seed_until_step = Until (num_seed_frames (cfg w)) (action_repeat (cfg w));
          eval_every_step = Every (eval_every_frames (cfg w)) (action_repeat (cfg w));
          (r, e) = env_reset c (train_env w);
          w1 = emit (EnvReset TrainEnv r) (w\<lparr>train_env := e\<rparr>)
      in case r of
           Inl x \<Rightarrow> (Raised x, w1)
         | Inr ts \<Rightarrow>
             let (m, g) = ag_init_meta c (agent w1);
                 w2 = emit (InitMeta m) (w1\<lparr>agent := g\<rparr>);
                 w3 = replay_add ts m w2;
                 l = \<lparr>episode_step = 0, episode_reward = 0, time_step = ts, meta = m,
                      metrics = None\<rparr>
             in case train_loop n v train_until_step seed_until_step eval_every_step c (l, w3) of
                  (Returned, (l', w')) \<Rightarrow>
                    if v = Pretrain then save_snapshot w' else (Returned, w')
                | (s, (l', w')) \<Rightarrow> (s, w'))"

section \<open>Entry point of pretraining\<close>

text \<open>
  \<^verbatim>\<open>Workspace.__init__\<close> of pretrain.py. The agent and the two environments are built
  by collaborators (hydra, dmc) and are given; the table \<open>PRIMAL_TASKS\<close> of
  \<^verbatim>\<open>dmc_benchmark\<close> is a parameter, and so is the number \<open>randint\<close> that
  \<^verbatim>\<open>random.randint(0, 100000)\<close> returns in line 47, which replaces the configured seed.
  The counters are set in lines 138-139.
\<close>

definition Workspace_init ::
  "(string \<rightharpoonup> string) \<Rightarrow> int \<Rightarrow> config \<Rightarrow> string \<Rightarrow> 'g \<Rightarrow> 'e \<Rightarrow> 'e \<Rightarrow> string set \<Rightarrow>
   (string \<rightharpoonup> 'g payload) \<Rightarrow> status \<times> ('e, 'g, 'o, 'a, 'm) workspace" where
  "Workspace_init PRIMAL_TASKS randint cfg0 wd g e1 e2 ds fs =
     (let w = \<lparr>cfg = cfg0\<lparr>seed := randint\<rparr>, work_dir = wd, agent = g, train_env = e1,
               eval_env = e2, replay_storage = [], global_step = 0, global_episode = 0,
               dirs = ds, files = fs, trace = []\<rparr>
      in if domain cfg0 \<in> dom PRIMAL_TASKS
         then (Returned, w\<lparr>global_step := 0, global_episode := 0\<rparr>)
         else (Raised AssertionError, w))"



section \<open>Entry point of fine-tuning\<close>

text \<open>
  \<^verbatim>\<open>domain, _ = self.cfg.task.split("_", 1)\<close>: the text before the first underscore and
  the rest; without an underscore the unpacking raises ValueError.
\<close>

definition split_once :: "string \<Rightarrow> (string \<times> string) option" where
  "split_once s =
     (if CHR ''_'' \<in> set s
      then Some (takeWhile (\<lambda>x. x \<noteq> CHR ''_'') s, tl (dropWhile (\<lambda>x. x \<noteq> CHR ''_'') s))
      else None)"

definition pretrained_path :: "config \<Rightarrow> string \<Rightarrow> int \<Rightarrow> string" where
  "pretrained_path cf domain' seed' =
     joinpath
       (joinpath
          (joinpath (Path ''../../../../../'')
             (joinpath (joinpath (joinpath (Path (snapshot_base_dir cf)) (obs_type cf)) domain')
                (agent_name cf)))
          (str_int seed'))
       (''snapshot_'' @ str_int (snapshot_ts cf) @ ''.pt'')"

text \<open>
  The local function \<^verbatim>\<open>try_load\<close> (finetune.py 276-291). The working directory the
  log line prints is the one the constructor stored in \<^verbatim>\<open>work_dir\<close>.
\<close>

definition try_load ::
  "('e, 'g, 'o, 'a, 'm) workspace \<Rightarrow> string \<Rightarrow> int \<Rightarrow>
   status \<times> 'g payload option \<times> ('e, 'g, 'o, 'a, 'm) workspace" where
  "try_load w domain' seed' =
     (let snapshot' = pretrained_path (cfg w) domain' seed';
          w1 = emit (Logging ''info''
                       (''loading model :'' @ snapshot' @ '',cwd is '' @ work_dir w)) w
      in if \<not> path_exists w1 snapshot'
         then (Returned, None, emit (Logging ''error'' ''no such a pretrain model'') w1)
         else (case files w1 snapshot' of
                 None \<Rightarrow> (Raised IsADirectoryError, None, w1)
               | Some payload \<Rightarrow> (Returned, Some payload, w1)))"

text \<open>\<^verbatim>\<open>Workspace.load_snapshot\<close> of finetune.py (269-297).\<close>

definition finetune_load_snapshot ::
  "('e, 'g, 'o, 'a, 'm) workspace \<Rightarrow>
   status \<times> 'g payload option \<times> ('e, 'g, 'o, 'a, 'm) workspace" where
  "finetune_load_snapshot w =
     (case split_once (task (cfg w)) of
        None \<Rightarrow> (Raised ValueError, None, w)
      | Some (domain', rest) \<Rightarrow>
          (case try_load w domain' (seed (cfg w)) of
             (Returned, None, w1) \<Rightarrow> (Raised AssertionError, None, w1)
           | r \<Rightarrow> r))"

text \<open>
  \<^verbatim>\<open>Workspace.__init__\<close> of finetune.py: the pretrained agent is applied in lines
  99-102, the counters are set in lines 138-139, after it.
\<close>

definition finetune_Workspace_init ::
  "('e, 'g, 'o, 'a, 'm) collab \<Rightarrow> config \<Rightarrow> string \<Rightarrow> 'g \<Rightarrow> 'e \<Rightarrow> 'e \<Rightarrow> string set \<Rightarrow>
   (string \<rightharpoonup> 'g payload) \<Rightarrow> status \<times> ('e, 'g, 'o, 'a, 'm) workspace" where
  "finetune_Workspace_init c cfg0 wd g e1 e2 ds fs =
     (let w = \<lparr>cfg = cfg0, work_dir = wd, agent = g, train_env = e1, eval_env = e2,
               replay_storage = [], global_step = 0, global_episode = 0, dirs = ds,
               files = fs, trace = []\<rparr>
      in bind_st
           (if snapshot_ts cfg0 > 0 then
              (case finetune_load_snapshot w of
                 (Returned, Some payload, w1) \<Rightarrow>
                   (case payload ''agent'' of
                      None \<Rightarrow> (Raised KeyError, w1)
                    | Some (IntVal _) \<Rightarrow> (Raised TypeError, w1)
                    | Some (AgentVal pretrained_agent) \<Rightarrow>
                        (Returned,
                         emit InitFrom
                           (w1\<lparr>agent := ag_init_from c pretrained_agent (agent w1)\<rparr>)))
               | (Returned, None, w1) \<Rightarrow> (Raised TypeError, w1)
               | (s, _, w1) \<Rightarrow> (s, w1))
            else (Returned, w))
           (\<lambda>w2. (Returned, w2\<lparr>global_step := 0, global_episode := 0\<rparr>)))"


section \<open>Example collaborators and workspaces\<close>

text \<open>
  A concrete environment that ends an episode on every third \<^verbatim>\<open>step\<close> call (its state
  is the number of step calls so far), an agent whose meta is the number of
  \<^verbatim>\<open>init_meta\<close> calls made before, and small configurations. The concrete runs below
  are evaluated on them.
\<close>

definition env3_step :: "unit \<Rightarrow> nat \<Rightarrow> (exn + unit time_step) \<times> nat" where
  "env3_step a k =
     (Inr \<lparr>step_type = (if Suc k mod 3 = 0 then LAST else MID), reward = 1, observation = ()\<rparr>,
      Suc k)"

definition env3_reset :: "nat \<Rightarrow> (exn + unit time_step) \<times> nat" where
  "env3_reset k = (Inr \<lparr>step_type = FIRST, reward = 0, observation = ()\<rparr>, k)"

definition demo_collab :: "(nat, nat, unit, unit, nat) collab" where
  "demo_collab =
     \<lparr>env_reset = env3_reset, env_step = env3_step,
      ag_init_meta = (\<lambda>g. (g, Suc g)),
      ag_update_meta = (\<lambda>m s ts g. (m, g)),
      ag_act = (\<lambda>ob m s ev g. ((), g)),
      ag_update = (\<lambda>rs s g. ([], g)),
      ag_init_from = (\<lambda>other g. other)\<rparr>"

definition demo_cfg :: config where
  "demo_cfg =
     \<lparr>num_train_frames = 9, num_seed_frames = 0, eval_every_frames = 10, action_repeat = 1,
      num_eval_episodes = 2, snapshots = [], snapshot_dir = ''snapshot'',
      snapshot = ''prev/snapshot_6.pt'', domain = ''walker'', snapshot_ts = 100,
      snapshot_base_dir = ''models'', obs_type = ''states'', task = ''walker_run'',
      agent_name = ''amped'', seed = 1\<rparr>"

definition demo_ws :: "(nat, nat, unit, unit, nat) workspace" where
  "demo_ws =
     \<lparr>cfg = demo_cfg, work_dir = ''/exp'', agent = 0, train_env = 0, eval_env = 0,
      replay_storage = [], global_step = 0, global_episode = 0, dirs = {},
      files = Map.empty, trace = []\<rparr>"

definition primal_tasks :: "string \<rightharpoonup> string" where
  "primal_tasks = [''walker'' \<mapsto> ''walker_stand'']"

definition saved_payload :: "nat payload" where
  "saved_payload =
     [''agent'' \<mapsto> AgentVal 7, ''_global_step'' \<mapsto> IntVal 1000,
      ''_global_episode'' \<mapsto> IntVal 5]"

definition resume_ws :: "(nat, nat, unit, unit, nat) workspace" where
  "resume_ws =
     demo_ws\<lparr>cfg := demo_cfg\<lparr>num_train_frames := 100000\<rparr>,
             files := [''prev/snapshot_6.pt'' \<mapsto> saved_payload]\<rparr>"

definition pretrained_files :: "string \<rightharpoonup> nat payload" where
  "pretrained_files =
     [''../../../../../models/states/walker/amped/1/snapshot_100.pt'' \<mapsto> saved_payload]"





definition odd_payload :: "nat payload" where
  "odd_payload =
     [''agent'' \<mapsto> AgentVal 7, ''_global_step'' \<mapsto> IntVal 9,
      ''_global_episode'' \<mapsto> IntVal 5]"

definition odd_ws :: "(nat, nat, unit, unit, nat) workspace" where
  "odd_ws = demo_ws\<lparr>files := [''prev/snapshot_6.pt'' \<mapsto> odd_payload]\<rparr>"




section \<open>Notions used in the statements\<close>

text \<open>The payload \<^verbatim>\<open>save_snapshot\<close> builds from a workspace.\<close>

definition payload_of :: "('e, 'g, 'o, 'a, 'm) workspace \<Rightarrow> 'g payload" where
  "payload_of w = (\<lambda>k. if k \<in> set keys_to_save then getattr w k else None)"

text \<open>
  The snapshot file of frame count \<open>f\<close>, and the workspace after a save that wrote its
  file: the directory of the snapshots is a directory, the snapshot file holds the
  payload and one \<open>SaveSnapshot\<close> event was added.
\<close>

definition snapshot_file :: "('e, 'g, 'o, 'a, 'm) workspace \<Rightarrow> int \<Rightarrow> string" where
  "snapshot_file w f =
     joinpath (joinpath (work_dir w) (snapshot_dir (cfg w)))
       (''snapshot_'' @ str_int f @ ''.pt'')"

definition saved ::
  "('e, 'g, 'o, 'a, 'm) workspace \<Rightarrow> ('e, 'g, 'o, 'a, 'm) workspace" where
  "saved w =
     w\<lparr>dirs := insert (joinpath (work_dir w) (snapshot_dir (cfg w))) (dirs w),
       files := (files w)(snapshot_path w \<mapsto> payload_of w),
       trace := trace w @ [SaveSnapshot (snapshot_path w)]\<rparr>"

text \<open>
  A save is blocked when a regular file has the name of the directory of the snapshots
  or a directory has the name of the snapshot file. The file system is ready for the
  saves of a run when no regular file has the name of the directory of the snapshots
  and no directory has the name of a snapshot file.
\<close>

definition save_blocked :: "('e, 'g, 'o, 'a, 'm) workspace \<Rightarrow> bool" where
  "save_blocked w =
     (files w (joinpath (work_dir w) (snapshot_dir (cfg w))) \<noteq> None
      \<or> snapshot_path w \<in> dirs w)"

definition fs_ready :: "('e, 'g, 'o, 'a, 'm) workspace \<Rightarrow> bool" where
  "fs_ready w =
     (files w (joinpath (work_dir w) (snapshot_dir (cfg w))) = None
      \<and> (\<forall>f. snapshot_file w f \<notin> dirs w))"

text \<open>
  Events of an evaluation run with meta \<open>m\<close> at step count \<open>s\<close>: greedy actions with
  that meta, and calls of the evaluation environment.
\<close>

fun eval_event :: "'m \<Rightarrow> int \<Rightarrow> ('o, 'a, 'm) event \<Rightarrow> bool" where
  "eval_event m s (Act m' s' ev) = (m' = m \<and> s' = s \<and> ev)"
| "eval_event m s (EnvStep i a r) = (i = EvalEnv)"
| "eval_event m s (EnvReset i r) = (i = EvalEnv)"
| "eval_event m s _ = False"

text \<open>
  The reward, the completion and the LAST status of a TimeStep the evaluation
  environment returned.
\<close>

fun ev_reward :: "('o, 'a, 'm) event \<Rightarrow> real" where
  "ev_reward (EnvStep EvalEnv a (Inr ts)) = reward ts"
| "ev_reward _ = 0"

fun ev_done_step :: "('o, 'a, 'm) event \<Rightarrow> bool" where
  "ev_done_step (EnvStep EvalEnv a (Inr ts)) = True"
| "ev_done_step _ = False"

fun ev_last :: "('o, 'a, 'm) event \<Rightarrow> bool" where
  "ev_last (EnvStep EvalEnv a (Inr ts)) = last_ts ts"
| "ev_last (EnvReset EvalEnv (Inr ts)) = last_ts ts"
| "ev_last _ = False"


text \<open>Two workspaces that differ at most in the agent, the evaluation environment and the trace.\<close>

definition same_training_state ::
  "('e, 'g, 'o, 'a, 'm) workspace \<Rightarrow> ('e, 'g, 'o, 'a, 'm) workspace \<Rightarrow> bool" where
  "same_training_state w w' =
     (cfg w' = cfg w \<and> work_dir w' = work_dir w \<and> train_env w' = train_env w
      \<and> replay_storage w' = replay_storage w \<and> global_step w' = global_step w
      \<and> global_episode w' = global_episode w \<and> dirs w' = dirs w \<and> files w' = files w)"

text \<open>Events that are neither a call of the training environment, nor an update, nor a save.\<close>

definition quiet :: "('o, 'a, 'm) event \<Rightarrow> bool" where
  "quiet e = (\<not> is_train_env e \<and> \<not> is_update e \<and> \<not> is_save e)"

text \<open>
  Events that may precede the update in a tick: no update, no step of the training
  environment and, in the fine-tuning loop, no save. \<open>step_rel\<close> relates the workspace
  before such a part of a tick to the workspace after it: the file system stays ready
  for the saves of the run when it was.
\<close>

definition prelude_ok :: "variant \<Rightarrow> ('o, 'a, 'm) event \<Rightarrow> bool" where
  "prelude_ok v e =
     (\<not> is_update e \<and> \<not> is_env_step TrainEnv e \<and> (if v = Finetune then \<not> is_save e else True))"

definition step_rel ::
  "variant \<Rightarrow> ('e, 'g, 'o, 'a, 'm) workspace \<Rightarrow> ('e, 'g, 'o, 'a, 'm) workspace \<Rightarrow> bool" where
  "step_rel v w w' =
     (global_step w' = global_step w \<and> cfg w' = cfg w
      \<and> (if v = Finetune then files w' = files w \<and> dirs w' = dirs w else True)
      \<and> (fs_ready w \<longrightarrow> fs_ready w')
      \<and> (\<exists>evs. trace w' = trace w @ evs \<and> list_all (prelude_ok v) evs))"

text \<open>
  An environment that returns a LAST TimeStep on every third \<^verbatim>\<open>step\<close> call and never
  raises: \<open>calls\<close> reads the number of step calls made so far from its state, a step
  call adds one to it and a reset leaves it and returns a TimeStep that is not LAST.
\<close>

definition last_every_3rd :: "('e, 'g, 'o, 'a, 'm) collab \<Rightarrow> ('e \<Rightarrow> nat) \<Rightarrow> bool" where
  "last_every_3rd c calls =
     ((\<forall>a e. case env_step c a e of
               (Inr ts, e') \<Rightarrow> calls e' = Suc (calls e) \<and> last_ts ts = (3 dvd Suc (calls e))
             | (Inl x, e') \<Rightarrow> False)
      \<and> (\<forall>e. case env_reset c e of
               (Inr ts, e') \<Rightarrow> calls e' = calls e \<and> \<not> last_ts ts
             | (Inl x, e') \<Rightarrow> False))"

text \<open>
  What holds after \<open>k\<close> iterations of the training loop against such an environment,
  with an empty seed phase: \<open>u0\<close> and \<open>t0\<close> are the numbers of updates and of training
  steps in the trace before the loop.
\<close>

definition run3_inv ::
  "('e \<Rightarrow> nat) \<Rightarrow> config \<Rightarrow> nat \<Rightarrow> nat \<Rightarrow> nat \<Rightarrow>
   ('o, 'm) locals \<times> ('e, 'g, 'o, 'a, 'm) workspace \<Rightarrow> bool" where
  "run3_inv calls cf u0 t0 k lw =
     (cfg (snd lw) = cf \<and> global_step (snd lw) = int k \<and> calls (train_env (snd lw)) = k
      \<and> last_ts (time_step (fst lw)) = (0 < k \<and> 3 dvd k)
      \<and> global_episode (snd lw) = int ((k - 1) div 3)
      \<and> count_ev is_update (trace (snd lw)) = u0 + k
      \<and> count_ev (is_env_step TrainEnv) (trace (snd lw)) = t0 + k)"

text \<open>The second workspace has the files, the directories and the number of saves of the first.\<close>

definition no_save ::
  "('e, 'g, 'o, 'a, 'm) workspace \<Rightarrow> ('e, 'g, 'o, 'a, 'm) workspace \<Rightarrow> bool" where
  "no_save w w' =
     (files w' = files w \<and> dirs w' = dirs w
      \<and> count_ev is_save (trace w') = count_ev is_save (trace w))"

section \<open>Resuming a pretraining run\<close>

subsection \<open>Floats of integers and of scaled numbers\<close>

lemma round_half_even_int [simp]: "round_half_even (real_of_int m) = m"
  by (simp add: round_half_even_def)

lemma pow2_pred: "pow2 (e - 1) * 2 = pow2 e"
proof (cases "0 < e")
  case True
  then have "nat e = Suc (nat (e - 1))" by simp
  with True show ?thesis by (simp add: pow2_def)
next
  case False
  then have "nat (1 - e) = Suc (nat (- e))" by simp
  with False show ?thesis by (simp add: pow2_def)
qed

lemma scale_up_value: "scale_up n q e = (q', e') \<Longrightarrow> q' * pow2 e' = q * pow2 e"
proof (induction n arbitrary: q e)
  case 0
  then show ?case by simp
next
  case (Suc n)
  show ?case
  proof (cases "q < 2 ^ 52")
    case True
    with Suc.prems have "scale_up n (2 * q) (e - 1) = (q', e')" by simp
    from Suc.IH [OF this] have "q' * pow2 e' = q * (pow2 (e - 1) * 2)" by simp
    then show ?thesis by (simp only: pow2_pred)
  next
    case False
    with Suc.prems show ?thesis by simp
  qed
qed

lemma scale_up_int:
  "scale_up n (real_of_int m) e = (q', e') \<Longrightarrow> \<exists>m'. q' = real_of_int m'"
proof (induction n arbitrary: m e)
  case 0
  then show ?case by auto
next
  case (Suc n)
  show ?case
  proof (cases "real_of_int m < 2 ^ 52")
    case True
    with Suc.prems have "scale_up n (real_of_int (2 * m)) (e - 1) = (q', e')" by simp
    from Suc.IH [OF this] show ?thesis .
  next
    case False
    with Suc.prems show ?thesis by auto
  qed
qed

lemma py_float_int:
  assumes "\<bar>z\<bar> < 2 ^ 53"
  shows "py_float (real_of_int z) = real_of_int z"
proof (cases "z = 0")
  case True
  then show ?thesis by (simp add: py_float_def)
next
  case False
  obtain q' e' where s: "scale_up 1074 (real_of_int \<bar>z\<bar>) 0 = (q', e')"
    by (cases "scale_up 1074 (real_of_int \<bar>z\<bar>) 0") auto
  from scale_up_int [OF s] obtain m' where m: "q' = real_of_int m'" ..
  from scale_up_value [OF s] have v: "q' * pow2 e' = real_of_int \<bar>z\<bar>"
    by (simp add: pow2_def)
  have lt: "\<not> (2 :: real) ^ 53 \<le> \<bar>real_of_int z\<bar>"
  proof -
    have "real_of_int \<bar>z\<bar> < real_of_int (2 ^ 53)"
      using assms by (simp only: of_int_less_iff)
    then show ?thesis by simp
  qed
  have "py_float (real_of_int z) = sgn (real_of_int z) * (q' * pow2 e')"
    using False lt s by (simp add: py_float_def m)
  also have "\<dots> = real_of_int z"
    by (simp add: v sgn_if)
  finally show ?thesis .
qed

lemma scale_up_stop:
  "0 < x \<Longrightarrow> 2 ^ 52 \<le> x * 2 ^ k \<Longrightarrow> x * 2 ^ k < 2 ^ 53 \<Longrightarrow>
     scale_up (k + m) x e = (x * 2 ^ k, e - int k)"
proof (induction k arbitrary: x e)
  case 0
  then show ?case by (cases m) simp_all
next
  case (Suc k)
  have "x * 1 \<le> x * 2 ^ k"
    using Suc.prems(1) by (intro mult_left_mono) simp_all
  moreover have "x * 2 ^ k < 2 ^ 52"
    using Suc.prems(3) by simp
  ultimately have lt: "x < 2 ^ 52" by simp
  have "scale_up (k + m) (2 * x) (e - 1) = (2 * x * 2 ^ k, e - 1 - int k)"
    using Suc.prems by (intro Suc.IH) (simp_all add: mult_ac)
  with lt show ?case by (simp add: mult_ac)
qed

lemma py_float_minus: "py_float (- x) = - py_float x"
  by (simp add: py_float_def sgn_if split: prod.splits)

lemma py_float_scaled:
  assumes "0 < x" and "k \<le> 1074" and "2 ^ 52 \<le> x * 2 ^ k" and "x * 2 ^ k < 2 ^ 53"
    and "round_half_even (x * 2 ^ k) = r"
  shows "py_float x = real_of_int r / 2 ^ k"
proof -
  have "x * 1 \<le> x * 2 ^ k"
    using assms(1) by (intro mult_left_mono) simp_all
  then have "x < 2 ^ 53"
    using assms(4) by (simp only: mult_1_right)
  then have lt: "\<not> 2 ^ 53 \<le> \<bar>x\<bar>"
    using assms(1) by (simp only: abs_of_pos not_le)
  from assms(2) obtain m where m: "1074 = k + m"
    using le_Suc_ex by blast
  have s: "scale_up 1074 \<bar>x\<bar> 0 = (x * 2 ^ k, 0 - int k)"
    unfolding m using assms(1,3,4) by (simp add: scale_up_stop)
  show ?thesis
    using assms(1) lt s assms(5) by (simp add: py_float_def pow2_def)
qed

lemma budget_exact:
  assumes "10 dvd S" and "\<bar>S\<bar> \<le> 10 ^ 15" and "\<bar>N\<bar> \<le> 10 ^ 15"
  shows "py_float (real_of_int S / 10) = real_of_int S / 10"
    and "py_float (py_float (real_of_int N)
           - py_float (py_float (real_of_int S) + py_float (real_of_int S / 10)))
         = real_of_int N - real_of_int S - real_of_int S / 10"
proof -
  from assms(1) obtain k where k: "S = 10 * k" ..
  have q: "real_of_int S / 10 = real_of_int k"
    by (simp add: k)
  have kb: "\<bar>k\<bar> \<le> 10 ^ 14"
    using assms(2) by (simp add: k abs_mult)
  have 1: "py_float (real_of_int k) = real_of_int k"
    using kb by (intro py_float_int) simp
  have 2: "py_float (real_of_int S) = real_of_int S"
    using assms(2) by (intro py_float_int) simp
  have 3: "py_float (real_of_int N) = real_of_int N"
    using assms(3) by (intro py_float_int) simp
  have 4: "py_float (real_of_int (S + k)) = real_of_int (S + k)"
    using assms(2) kb by (intro py_float_int) simp
  have 5: "py_float (real_of_int (N - (S + k))) = real_of_int (N - (S + k))"
    using assms(2,3) kb by (intro py_float_int) simp
  show "py_float (real_of_int S / 10) = real_of_int S / 10"
    by (simp only: q 1)
  have "py_float (py_float (real_of_int N)
           - py_float (py_float (real_of_int S) + py_float (real_of_int S / 10)))
        = py_float (real_of_int N - py_float (real_of_int (S + k)))"
    by (simp only: q 1 2 3 of_int_add)
  also have "\<dots> = py_float (real_of_int (N - (S + k)))"
    by (simp only: 4 of_int_diff)
  also have "\<dots> = real_of_int N - real_of_int S - real_of_int S / 10"
    using 5 by (simp add: q)
  finally show "py_float (py_float (real_of_int N)
           - py_float (py_float (real_of_int S) + py_float (real_of_int S / 10)))
         = real_of_int N - real_of_int S - real_of_int S / 10" .
qed

text \<open>The floats of a resumed run whose stored step count is 9, with a budget of 9 frames.\<close>

lemma float_nine_tenths: "py_float (9 / 10) = 8106479329266893 / 9007199254740992"
  by (rule py_float_scaled [where k = 53, THEN trans]) (simp_all add: round_half_even_def)

lemma float_nine_budget:
  "py_float (py_float 9 - py_float (py_float 9 + py_float (9 / 10)))
     = - (506654958079181 / 562949953421312)"
proof -
  have 9: "py_float 9 = 9"
    using py_float_int [of 9] by simp
  have s: "py_float (9 + 8106479329266893 / 9007199254740992)
             = 5573204538870989 / 562949953421312"
    by (rule py_float_scaled [where k = 49, THEN trans]) (simp_all add: round_half_even_def)
  have "py_float (506654958079181 / 562949953421312) = 506654958079181 / 562949953421312"
    by (rule py_float_scaled [where k = 53, THEN trans]) (simp_all add: round_half_even_def)
  then have "py_float (- (506654958079181 / 562949953421312))
               = - (506654958079181 / 562949953421312)"
    by (simp only: py_float_minus)
  then have d: "py_float (9 - 5573204538870989 / 562949953421312)
               = - (506654958079181 / 562949953421312)"
    by simp
  show ?thesis
    by (simp only: 9 float_nine_tenths s d)
qed

subsection \<open>The budgets after a resume\<close>

lemma load_snapshot_result:
  assumes "files w (Path (snapshot (cfg w))) = Some payload"
    and "payload ''agent'' = Some (AgentVal other)"
    and "payload ''_global_step'' = Some (IntVal S)"
    and "payload ''_global_episode'' = Some (IntVal E)"
  shows "load_snapshot c w =
    (Returned,
     w\<lparr>agent := ag_init_from c other (agent w),
       trace := trace w @ [InitFrom],
       cfg := (cfg w)\<lparr>num_seed_frames := py_float (real_of_int S / 10),
                      num_train_frames :=
                        py_float (py_float (num_train_frames (cfg w))
                          - py_float (py_float (real_of_int S)
                                        + py_float (real_of_int S / 10)))\<rparr>,
       global_episode := E\<rparr>)"
  using assms by (simp add: load_snapshot_def emit_def Let_def)

lemma load_snapshot_global_step:
  "global_step (snd (load_snapshot c w)) = global_step w"
  by (simp add: load_snapshot_def emit_def Let_def split: option.splits pyval.splits)

lemma demo_snapshot_file: "Path ''prev/snapshot_6.pt'' = ''prev/snapshot_6.pt''"
  by code_simp

lemma resume_ws_file: "files resume_ws (Path (snapshot (cfg resume_ws))) = Some saved_payload"
  by (simp add: resume_ws_def demo_ws_def demo_cfg_def demo_snapshot_file)

lemma saved_payload_keys:
  "saved_payload ''agent'' = Some (AgentVal 7)"
  "saved_payload ''_global_step'' = Some (IntVal 1000)"
  "saved_payload ''_global_episode'' = Some (IntVal 5)"
  by (simp_all add: saved_payload_def)

lemma odd_ws_file: "files odd_ws (Path (snapshot (cfg odd_ws))) = Some odd_payload"
  by (simp add: odd_ws_def demo_ws_def demo_cfg_def demo_snapshot_file)

lemma odd_payload_keys:
  "odd_payload ''agent'' = Some (AgentVal 7)"
  "odd_payload ''_global_step'' = Some (IntVal 9)"
  "odd_payload ''_global_episode'' = Some (IntVal 5)"
  by (simp_all add: odd_payload_def)

text \<open>
  C2, as the code has it. When the snapshot file holds an agent, a stored
  \<^verbatim>\<open>_global_step\<close> S and a stored \<^verbatim>\<open>_global_episode\<close> E, \<^verbatim>\<open>load_snapshot\<close> of the
  pretraining workspace returns and \<^verbatim>\<open>_global_episode\<close> becomes E. The seed budget
  becomes the float \<^verbatim>\<open>S / 10\<close> and the training budget the float
  \<^verbatim>\<open>budget - (S + S / 10)\<close>, every operation rounded to the nearest float. When S is a
  multiple of 10 and S and the budget, an integer N, are at most \<^verbatim>\<open>10 ** 15\<close> in
  magnitude, nothing is rounded: the seed budget is S/10 and the training budget is the
  old one minus S minus S/10.
\<close>

theorem load_snapshot_budget:
  assumes "files w (Path (snapshot (cfg w))) = Some payload"
    and "payload ''agent'' = Some (AgentVal other)"
    and "payload ''_global_step'' = Some (IntVal S)"
    and "payload ''_global_episode'' = Some (IntVal E)"
  shows "fst (load_snapshot c w) = Returned
    \<and> global_episode (snd (load_snapshot c w)) = E
    \<and> num_seed_frames (cfg (snd (load_snapshot c w))) = py_float (real_of_int S / 10)
    \<and> num_train_frames (cfg (snd (load_snapshot c w)))
        = py_float (py_float (num_train_frames (cfg w))
            - py_float (py_float (real_of_int S) + py_float (real_of_int S / 10)))
    \<and> (10 dvd S \<and> \<bar>S\<bar> \<le> 10 ^ 15 \<and> num_train_frames (cfg w) = real_of_int N
         \<and> \<bar>N\<bar> \<le> 10 ^ 15 \<longrightarrow>
          num_seed_frames (cfg (snd (load_snapshot c w))) = real_of_int S / 10
        \<and> num_train_frames (cfg (snd (load_snapshot c w)))
            = num_train_frames (cfg w) - real_of_int S - real_of_int S / 10)"
  using budget_exact [of S N]
  by (simp add: load_snapshot_result [OF assms])

text \<open>The instance of the specification: S = 1000 and a budget of 100000 frames.\<close>

theorem load_snapshot_budget_witness:
  "fst (load_snapshot demo_collab resume_ws) = Returned
    \<and> num_seed_frames (cfg (snd (load_snapshot demo_collab resume_ws))) = 100
    \<and> num_train_frames (cfg (snd (load_snapshot demo_collab resume_ws))) = 98900
    \<and> global_episode (snd (load_snapshot demo_collab resume_ws)) = 5"
proof -
  have n: "num_train_frames (cfg resume_ws) = real_of_int 100000"
    by (simp add: resume_ws_def demo_ws_def demo_cfg_def)
  note t = load_snapshot_budget
             [OF resume_ws_file saved_payload_keys, of demo_collab 100000]
  from t have a: "fst (load_snapshot demo_collab resume_ws) = Returned"
    by (elim conjE)
  from t have b: "global_episode (snd (load_snapshot demo_collab resume_ws)) = 5"
    by (elim conjE)
  from t n have
    "num_seed_frames (cfg (snd (load_snapshot demo_collab resume_ws))) = real_of_int 1000 / 10
     \<and> num_train_frames (cfg (snd (load_snapshot demo_collab resume_ws)))
        = num_train_frames (cfg resume_ws) - real_of_int 1000 - real_of_int 1000 / 10"
    by (elim conjE) simp
  with n a b show ?thesis by simp
qed

text \<open>
  C2 as stated fails: for a stored step count of 9 and a budget of 9 frames the two
  budgets are not 9/10 and 9 - 9 - 9/10. The seed budget is the float nearest to 0.9 and
  the training budget is the float that Python prints as \<^verbatim>\<open>-0.9000000000000004\<close>.
\<close>

theorem load_snapshot_budget_counterexample:
  "fst (load_snapshot demo_collab odd_ws) = Returned
   \<and> num_train_frames (cfg odd_ws) = 9
   \<and> odd_payload ''_global_step'' = Some (IntVal 9)
   \<and> num_seed_frames (cfg (snd (load_snapshot demo_collab odd_ws)))
       = 8106479329266893 / 9007199254740992
   \<and> num_seed_frames (cfg (snd (load_snapshot demo_collab odd_ws))) \<noteq> 9 / 10
   \<and> num_train_frames (cfg (snd (load_snapshot demo_collab odd_ws)))
       = - (506654958079181 / 562949953421312)
   \<and> num_train_frames (cfg (snd (load_snapshot demo_collab odd_ws))) \<noteq> 9 - 9 - 9 / 10"
proof -
  have n: "num_train_frames (cfg odd_ws) = 9"
    by (simp add: odd_ws_def demo_ws_def demo_cfg_def)
  have s: "num_seed_frames (cfg (snd (load_snapshot demo_collab odd_ws)))
             = 8106479329266893 / 9007199254740992"
    by (simp add: load_snapshot_result [OF odd_ws_file odd_payload_keys] float_nine_tenths)
  have t: "num_train_frames (cfg (snd (load_snapshot demo_collab odd_ws)))
             = - (506654958079181 / 562949953421312)"
    by (simp add: load_snapshot_result [OF odd_ws_file odd_payload_keys] n float_nine_budget)
  have r: "fst (load_snapshot demo_collab odd_ws) = Returned"
    by (simp add: load_snapshot_result [OF odd_ws_file odd_payload_keys])
  show ?thesis
    by (simp add: r s t n odd_payload_keys)
qed

text \<open>
  C10. A workspace that was just constructed and then resumed from a snapshot has
  \<^verbatim>\<open>_global_step\<close> 0 and global frame 0, whatever step count S the payload stores: the
  result differs from the constructed workspace in the agent, the two frame budgets and
  \<^verbatim>\<open>_global_episode\<close> only. \<^verbatim>\<open>load_snapshot\<close> never assigns \<^verbatim>\<open>_global_step\<close>.
\<close>

theorem resume_restarts_global_step:
  assumes "Workspace_init PT randint cfg0 wd g e1 e2 ds fs = (Returned, w)"
    and "fs (Path (snapshot cfg0)) = Some payload"
    and "payload ''agent'' = Some (AgentVal other)"
    and "payload ''_global_step'' = Some (IntVal S)"
    and "payload ''_global_episode'' = Some (IntVal E)"
  shows "load_snapshot c w =
      (Returned,
       \<lparr>cfg = cfg0\<lparr>seed := randint,
                   num_seed_frames := py_float (real_of_int S / 10),
                   num_train_frames :=
                     py_float (py_float (num_train_frames cfg0)
                       - py_float (py_float (real_of_int S)
                                     + py_float (real_of_int S / 10)))\<rparr>,
        work_dir = wd, agent = ag_init_from c other g, train_env = e1, eval_env = e2,
        replay_storage = [], global_step = 0, global_episode = E, dirs = ds, files = fs,
        trace = [InitFrom]\<rparr>)
    \<and> global_step (snd (load_snapshot c w)) = 0
    \<and> global_frame (snd (load_snapshot c w)) = 0
    \<and> (\<forall>w2. global_step (snd (load_snapshot c w2)) = global_step w2)"
proof -
  from assms(1) have w:
    "w = \<lparr>cfg = cfg0\<lparr>seed := randint\<rparr>, work_dir = wd, agent = g, train_env = e1,
          eval_env = e2, replay_storage = [], global_step = 0, global_episode = 0,
          dirs = ds, files = fs, trace = []\<rparr>"
    by (simp add: Workspace_init_def Let_def split: if_splits)
  have f: "files w (Path (snapshot (cfg w))) = Some payload"
    using assms(2) by (simp add: w)
  have r: "load_snapshot c w =
      (Returned,
       \<lparr>cfg = cfg0\<lparr>seed := randint,
                   num_seed_frames := py_float (real_of_int S / 10),
                   num_train_frames :=
                     py_float (py_float (num_train_frames cfg0)
                       - py_float (py_float (real_of_int S)
                                     + py_float (real_of_int S / 10)))\<rparr>,
        work_dir = wd, agent = ag_init_from c other g, train_env = e1, eval_env = e2,
        replay_storage = [], global_step = 0, global_episode = E, dirs = ds, files = fs,
        trace = [InitFrom]\<rparr>)"
    unfolding load_snapshot_result [OF f assms(3-5)] by (simp add: w)
  show ?thesis
    by (simp add: r global_frame_def load_snapshot_global_step)
qed

theorem resume_restarts_global_step_witness:
  "global_step (snd (load_snapshot demo_collab resume_ws)) = 0
    \<and> global_frame (snd (load_snapshot demo_collab resume_ws)) = 0
    \<and> saved_payload ''_global_step'' = Some (IntVal 1000)"
proof -
  have i: "Workspace_init primal_tasks 1 (cfg resume_ws) ''/exp'' 0 0 0 {} (files resume_ws)
           = (Returned, resume_ws)"
    by (simp add: Workspace_init_def resume_ws_def demo_ws_def demo_cfg_def primal_tasks_def)
  have f: "files resume_ws (Path (snapshot (cfg resume_ws))) = Some saved_payload"
    by (rule resume_ws_file)
  show ?thesis
    using resume_restarts_global_step
            [OF i f saved_payload_keys, of demo_collab, THEN conjunct2]
    by (simp add: saved_payload_keys resume_ws_def demo_ws_def global_frame_def)
qed

section \<open>Saving a snapshot\<close>

subsection \<open>The name of a snapshot file\<close>

lemma digit_no_slash: "n < 10 \<Longrightarrow> digit n \<noteq> CHR ''/''"
proof -
  assume "n < 10"
  then have "n \<in> {0, 1, 2, 3, 4, 5, 6, 7, 8, 9}" by auto
  then show ?thesis by (auto simp: digit_def)
qed

lemma str_nat_no_slash: "CHR ''/'' \<notin> set (str_nat n)"
proof (induction n rule: str_nat.induct)
  case (1 n)
  show ?case
  proof (cases "n < 10")
    case True
    then show ?thesis
      using digit_no_slash [of n] by (simp add: str_nat.simps [of n])
  next
    case False
    have "n mod 10 < 10" by simp
    from digit_no_slash [OF this] 1 [OF False] False show ?thesis
      by (simp add: str_nat.simps [of n])
  qed
qed

lemma str_int_no_slash: "CHR ''/'' \<notin> set (str_int i)"
  by (simp add: str_int_def str_nat_no_slash)

lemma split_slash_no_slash: "CHR ''/'' \<notin> set s \<Longrightarrow> split_slash s = [s]"
  by (induction s) auto

lemma Path_component:
  assumes "CHR ''/'' \<notin> set s" and "s \<noteq> []" and "s \<noteq> ''.''"
  shows "Path s = s" and "path_root s = []"
proof -
  from split_slash_no_slash [OF assms(1)] assms(2,3)
  have p: "path_parts s = [s]"
    by (simp add: path_parts_def)
  show r: "path_root s = []"
    using assms(1,2) by (cases s) (auto simp: path_root_def take_Suc_conv_app_nth)
  show "Path s = s"
    using assms(2) by (simp add: Path_def p r)
qed

lemma joinpath_component:
  assumes "CHR ''/'' \<notin> set s" and "s \<noteq> []" and "s \<noteq> ''.''"
  shows "joinpath d s =
     (if d = [] \<or> d = ''.'' then s
      else if last d = CHR ''/'' then d @ s else d @ ''/'' @ s)"
  using assms(3) by (simp add: joinpath_def Path_component [OF assms] Let_def)

lemma joinpath_component_neq:
  assumes "CHR ''/'' \<notin> set s" and "s \<noteq> []" and "s \<noteq> ''.''"
  shows "joinpath d s \<noteq> d"
  using assms(2,3) by (auto simp: joinpath_component [OF assms])

lemma snapshot_name:
  "CHR ''/'' \<notin> set (''snapshot_'' @ str_int f @ ''.pt'')"
  "''snapshot_'' @ str_int f @ ''.pt'' \<noteq> []"
  "''snapshot_'' @ str_int f @ ''.pt'' \<noteq> ''.''"
  by (simp_all add: str_int_no_slash)

lemma snapshot_file_neq_dir:
  "snapshot_file w f \<noteq> joinpath (work_dir w) (snapshot_dir (cfg w))"
  unfolding snapshot_file_def by (rule joinpath_component_neq [OF snapshot_name])

lemma snapshot_path_file: "snapshot_path w = snapshot_file w (global_frame w)"
  by (simp add: snapshot_path_def snapshot_file_def)

lemma snapshot_path_neq_dir:
  "snapshot_path w \<noteq> joinpath (work_dir w) (snapshot_dir (cfg w))"
  by (simp add: snapshot_path_file snapshot_file_neq_dir)

subsection \<open>The outcomes of a save\<close>

lemma save_snapshot_eq:
  "save_snapshot w =
     (if files w (joinpath (work_dir w) (snapshot_dir (cfg w))) \<noteq> None
      then (Raised FileExistsError, w)
      else if snapshot_path w \<in> dirs w
      then (Raised IsADirectoryError,
            w\<lparr>dirs := insert (joinpath (work_dir w) (snapshot_dir (cfg w))) (dirs w)\<rparr>)
      else (Returned, saved w))"
  using snapshot_path_neq_dir [of w]
  by (simp add: save_snapshot_def Let_def emit_def payload_of_def saved_def snapshot_path_def
      global_frame_def getattr_def cong: if_cong)


lemma save_snapshot_ok: "\<not> save_blocked w \<Longrightarrow> save_snapshot w = (Returned, saved w)"
  by (simp add: save_snapshot_eq save_blocked_def)


lemma save_snapshot_Returned:
  "save_snapshot w = (Returned, w') \<Longrightarrow> w' = saved w"
  by (auto simp: save_snapshot_eq split: if_splits)



lemma saved_fields [simp]:
  "cfg (saved w) = cfg w" "work_dir (saved w) = work_dir w"
  "global_step (saved w) = global_step w" "global_episode (saved w) = global_episode w"
  "agent (saved w) = agent w" "train_env (saved w) = train_env w"
  "eval_env (saved w) = eval_env w" "replay_storage (saved w) = replay_storage w"
  by (simp_all add: saved_def)

lemma payload_of_saved [simp]: "payload_of (saved w) = payload_of w"
  by (rule ext) (simp add: payload_of_def getattr_def)

lemma snapshot_path_saved [simp]: "snapshot_path (saved w) = snapshot_path w"
  by (simp add: snapshot_path_def global_frame_def)




lemma fs_ready_not_blocked: "fs_ready w \<Longrightarrow> \<not> save_blocked w"
  by (simp add: fs_ready_def save_blocked_def snapshot_path_file)

lemma snapshot_file_saved [simp]: "snapshot_file (saved w) f = snapshot_file w f"
  by (simp add: snapshot_file_def)

lemma fs_ready_saved: "fs_ready w \<Longrightarrow> fs_ready (saved w)"
  using snapshot_file_neq_dir [of w] snapshot_path_neq_dir [of w]
  by (simp add: fs_ready_def) (auto simp: saved_def)







section \<open>Loading a pretrained snapshot for fine-tuning\<close>


lemma finetune_load_snapshot_found:
  assumes "split_once (task (cfg w)) = Some (d, r)"
    and "files w (pretrained_path (cfg w) d (seed (cfg w))) = Some payload"
  shows "finetune_load_snapshot w =
     (Returned, Some payload,
      emit (Logging ''info''
              (''loading model :'' @ pretrained_path (cfg w) d (seed (cfg w))
                 @ '',cwd is '' @ work_dir w)) w)"
  using assms
  by (simp add: finetune_load_snapshot_def try_load_def emit_def Let_def path_exists_def)

lemma finetune_load_snapshot_absent:
  assumes "split_once (task (cfg w)) = Some (d, r)"
    and "\<not> path_exists w (pretrained_path (cfg w) d (seed (cfg w)))"
  shows "finetune_load_snapshot w =
     (Raised AssertionError, None,
      emit (Logging ''error'' ''no such a pretrain model'')
        (emit (Logging ''info''
                 (''loading model :'' @ pretrained_path (cfg w) d (seed (cfg w))
                 @ '',cwd is '' @ work_dir w)) w))"
  using assms
  by (simp add: finetune_load_snapshot_def try_load_def emit_def Let_def path_exists_def)

text \<open>
  C8. When the task name yields a domain, \<^verbatim>\<open>load_snapshot\<close> of the fine-tuning
  workspace looks at one path, built from the base directory, the observation type, the
  domain, the agent name, the seed and \<^verbatim>\<open>snapshot_ts\<close>. If nothing exists there the call
  raises AssertionError after logging the error, whatever other files exist; if a file
  is there the call returns its payload.
\<close>

theorem finetune_load_snapshot_asserts:
  assumes "split_once (task (cfg w)) = Some (d, r)"
  shows "(\<not> path_exists w (pretrained_path (cfg w) d (seed (cfg w))) \<longrightarrow>
            finetune_load_snapshot w =
              (Raised AssertionError, None,
               emit (Logging ''error'' ''no such a pretrain model'')
                 (emit (Logging ''info''
                    (''loading model :'' @ pretrained_path (cfg w) d (seed (cfg w))
                 @ '',cwd is '' @ work_dir w)) w)))
    \<and> (\<forall>payload. files w (pretrained_path (cfg w) d (seed (cfg w))) = Some payload \<longrightarrow>
            finetune_load_snapshot w =
              (Returned, Some payload,
               emit (Logging ''info''
                 (''loading model :'' @ pretrained_path (cfg w) d (seed (cfg w))
                 @ '',cwd is '' @ work_dir w)) w))"
  using finetune_load_snapshot_found [OF assms] finetune_load_snapshot_absent [OF assms]
  by blast

lemma demo_split: "split_once (task demo_cfg) = Some (''walker'', ''run'')"
  by code_simp

lemma demo_pretrained_path:
  "pretrained_path demo_cfg ''walker'' (seed demo_cfg)
     = ''../../../../../models/states/walker/amped/1/snapshot_100.pt''"
  by code_simp

theorem finetune_load_snapshot_asserts_witness:
  "fst (finetune_load_snapshot demo_ws) = Raised AssertionError
   \<and> fst (snd (finetune_load_snapshot demo_ws)) = None
   \<and> fst (finetune_load_snapshot (demo_ws\<lparr>files := pretrained_files\<rparr>)) = Returned
   \<and> fst (snd (finetune_load_snapshot (demo_ws\<lparr>files := pretrained_files\<rparr>)))
        = Some saved_payload"
proof -
  have s1: "split_once (task (cfg demo_ws)) = Some (''walker'', ''run'')"
    using demo_split by (simp add: demo_ws_def)
  have s2: "split_once (task (cfg (demo_ws\<lparr>files := pretrained_files\<rparr>))) = Some (''walker'', ''run'')"
    using demo_split by (simp add: demo_ws_def)
  have a: "\<not> path_exists demo_ws (pretrained_path (cfg demo_ws) ''walker'' (seed (cfg demo_ws)))"
    by (simp add: path_exists_def demo_ws_def)
  have b: "files (demo_ws\<lparr>files := pretrained_files\<rparr>)
             (pretrained_path (cfg (demo_ws\<lparr>files := pretrained_files\<rparr>)) ''walker''
                (seed (cfg (demo_ws\<lparr>files := pretrained_files\<rparr>)))) = Some saved_payload"
    using demo_pretrained_path by (simp add: demo_ws_def pretrained_files_def)
  show ?thesis
    using finetune_load_snapshot_asserts [OF s1, THEN conjunct1, rule_format, OF a]
      finetune_load_snapshot_asserts [OF s2, THEN conjunct2, rule_format, OF b]
    by simp
qed

lemma finetune_init_counters:
  "finetune_Workspace_init c cfg0 wd g e1 e2 ds fs = (Returned, w) \<Longrightarrow>
     global_step w = 0 \<and> global_episode w = 0"
  by (auto simp: finetune_Workspace_init_def bind_st_def Let_def
      split: if_splits prod.splits status.splits option.splits pyval.splits)

text \<open>
  C6. With \<^verbatim>\<open>snapshot_ts > 0\<close> and a pretrained file whose payload holds an agent, the
  constructor of the fine-tuning workspace returns a workspace whose agent is the fresh
  agent initialised from the payload's agent and whose \<^verbatim>\<open>_global_step\<close> and
  \<^verbatim>\<open>_global_episode\<close> are 0; nothing else of the payload is read, so the counters it
  stores have no influence.
\<close>

theorem finetune_init_from_pretrained:
  assumes "snapshot_ts cfg0 > 0"
    and "split_once (task cfg0) = Some (d, r)"
    and "fs (pretrained_path cfg0 d (seed cfg0)) = Some payload"
    and "payload ''agent'' = Some (AgentVal other)"
  shows "finetune_Workspace_init (c :: ('e, 'g, 'o, 'a, 'm) collab) cfg0 wd g e1 e2 ds fs =
      (Returned,
       \<lparr>cfg = cfg0, work_dir = wd, agent = ag_init_from c other g, train_env = e1,
        eval_env = e2, replay_storage = [], global_step = 0, global_episode = 0, dirs = ds,
        files = fs,
        trace = [Logging ''info'' (''loading model :'' @ pretrained_path cfg0 d (seed cfg0)
                                     @ '',cwd is '' @ wd),
                 InitFrom]\<rparr>)
    \<and> global_step (snd (finetune_Workspace_init c cfg0 wd g e1 e2 ds fs)) = 0
    \<and> global_episode (snd (finetune_Workspace_init c cfg0 wd g e1 e2 ds fs)) = 0"
proof -
  let ?w = "\<lparr>cfg = cfg0, work_dir = wd, agent = g, train_env = e1, eval_env = e2,
               replay_storage = [], global_step = 0, global_episode = 0, dirs = ds,
               files = fs, trace = []\<rparr> :: ('e, 'g, 'o, 'a, 'm) workspace"
  have s: "split_once (task (cfg ?w)) = Some (d, r)"
    using assms(2) by simp
  have f: "files ?w (pretrained_path (cfg ?w) d (seed (cfg ?w))) = Some payload"
    using assms(3) by simp
  have "finetune_Workspace_init c cfg0 wd g e1 e2 ds fs =
      (Returned,
       \<lparr>cfg = cfg0, work_dir = wd, agent = ag_init_from c other g, train_env = e1,
        eval_env = e2, replay_storage = [], global_step = 0, global_episode = 0, dirs = ds,
        files = fs,
        trace = [Logging ''info'' (''loading model :'' @ pretrained_path cfg0 d (seed cfg0)
                                     @ '',cwd is '' @ wd),
                 InitFrom]\<rparr>)"
    using assms(1,4)
    by (simp add: finetune_Workspace_init_def Let_def finetune_load_snapshot_found [OF s f]
        bind_st_def emit_def)
  then show ?thesis by simp
qed

theorem finetune_init_from_pretrained_witness:
  "global_step (snd (finetune_Workspace_init demo_collab demo_cfg ''/exp'' 0 0 0 {} pretrained_files)) = 0
   \<and> global_episode (snd (finetune_Workspace_init demo_collab demo_cfg ''/exp'' 0 0 0 {} pretrained_files)) = 0
   \<and> agent (snd (finetune_Workspace_init demo_collab demo_cfg ''/exp'' 0 0 0 {} pretrained_files)) = 7
   \<and> saved_payload ''_global_step'' = Some (IntVal 1000)
   \<and> saved_payload ''_global_episode'' = Some (IntVal 5)"
proof -
  have t: "snapshot_ts demo_cfg > 0"
    by (simp add: demo_cfg_def)
  have f: "pretrained_files (pretrained_path demo_cfg ''walker'' (seed demo_cfg)) = Some saved_payload"
    by (simp add: demo_pretrained_path pretrained_files_def)
  show ?thesis
    using finetune_init_from_pretrained
      [where ?cfg0.0 = demo_cfg and fs = pretrained_files and payload = saved_payload
         and c = demo_collab and wd = "''/exp''" and g = 0 and ?e1.0 = 0 and ?e2.0 = 0
         and ds = "{}", OF t demo_split f saved_payload_keys(1)]
    by (simp add: saved_payload_keys demo_collab_def)
qed

section \<open>The evaluation loop\<close>

lemma same_training_state_refl [simp]: "same_training_state w w"
  by (simp add: same_training_state_def)

lemma same_training_state_trans:
  "same_training_state w w1 \<Longrightarrow> same_training_state w1 w2 \<Longrightarrow> same_training_state w w2"
  by (simp add: same_training_state_def)

lemma Until_one: "Until (real_of_int N) 1 e = (e < N)"
  by (simp add: Until_def)

lemma fs_ready_cong:
  "files w' = files w \<Longrightarrow> dirs w' = dirs w \<Longrightarrow> work_dir w' = work_dir w \<Longrightarrow> cfg w' = cfg w \<Longrightarrow>
     fs_ready w' = fs_ready w"
  by (simp add: fs_ready_def snapshot_file_def)

lemma count_ev_simps [simp]:
  "count_ev P [] = 0"
  "count_ev P (e # evs) = (if P e then Suc (count_ev P evs) else count_ev P evs)"
  "count_ev P (evs @ evs') = count_ev P evs + count_ev P evs'"
  by (simp_all add: count_ev_def)

lemma eval_steps_frame:
  "eval_steps n c m ts acc w = (s, acc', w') \<Longrightarrow> same_training_state w w'"
proof (induction n arbitrary: ts acc w)
  case 0
  then show ?case by simp
next
  case (Suc n)
  show ?case
  proof (cases "last_ts ts")
    case True
    with Suc.prems show ?thesis by simp
  next
    case False
    obtain action g where a: "ag_act c (observation ts) m (global_step w) True (agent w) = (action, g)"
      by (cases "ag_act c (observation ts) m (global_step w) True (agent w)")
    let ?w1 = "emit (Act m (global_step w) True) (w\<lparr>agent := g\<rparr>)"
    obtain r e where st: "env_step c action (eval_env ?w1) = (r, e)"
      by (cases "env_step c action (eval_env ?w1)")
    let ?w2 = "emit (EnvStep EvalEnv action r) (?w1\<lparr>eval_env := e\<rparr>)"
    have f2: "same_training_state w ?w2"
      by (simp add: same_training_state_def emit_def)
    show ?thesis
    proof (cases r)
      case (Inl x)
      with Suc.prems False a st have "w' = ?w2" by (simp add: Let_def)
      with f2 show ?thesis by simp
    next
      case (Inr ts')
      with Suc.prems False a st
      have "eval_steps n c m ts' (fst acc + 1, snd acc + reward ts') ?w2 = (s, acc', w')"
        by (simp add: Let_def)
      from Suc.IH [OF this] f2 show ?thesis
        by (rule same_training_state_trans [rotated])
    qed
  qed
qed

lemma eval_steps_events:
  "eval_steps n c m ts acc w = (s, acc', w') \<Longrightarrow>
     \<exists>evs. trace w' = trace w @ evs
       \<and> list_all (eval_event m (global_step w)) evs
       \<and> count_ev (is_env_reset EvalEnv) evs = 0
       \<and> fst acc' = fst acc + int (count_ev ev_done_step evs)
       \<and> snd acc' = snd acc + sum_list (map ev_reward evs)
       \<and> (s = Returned \<longrightarrow> count_ev ev_last evs = (if last_ts ts then 0 else 1))"
proof (induction n arbitrary: ts acc w)
  case 0
  then show ?case by simp
next
  case (Suc n)
  show ?case
  proof (cases "last_ts ts")
    case True
    with Suc.prems show ?thesis by simp
  next
    case False
    obtain action g where a: "ag_act c (observation ts) m (global_step w) True (agent w) = (action, g)"
      by (cases "ag_act c (observation ts) m (global_step w) True (agent w)")
    let ?w1 = "emit (Act m (global_step w) True) (w\<lparr>agent := g\<rparr>)"
    obtain r e where st: "env_step c action (eval_env ?w1) = (r, e)"
      by (cases "env_step c action (eval_env ?w1)")
    let ?w2 = "emit (EnvStep EvalEnv action r) (?w1\<lparr>eval_env := e\<rparr>)"
    have t2: "trace ?w2 = trace w @ [Act m (global_step w) True, EnvStep EvalEnv action r]"
      and g2: "global_step ?w2 = global_step w"
      by (simp_all add: emit_def)
    show ?thesis
    proof (cases r)
      case (Inl x)
      with Suc.prems False a st have "w' = ?w2" "acc' = acc" "s = Raised x"
        by (simp_all add: Let_def)
      with t2 Inl show ?thesis by simp
    next
      case (Inr ts')
      with Suc.prems False a st
      have "eval_steps n c m ts' (fst acc + 1, snd acc + reward ts') ?w2 = (s, acc', w')"
        by (simp add: Let_def)
      from Suc.IH [OF this] obtain evs where
        e: "trace w' = trace ?w2 @ evs"
          "list_all (eval_event m (global_step w)) evs"
          "count_ev (is_env_reset EvalEnv) evs = 0"
          "fst acc' = fst acc + 1 + int (count_ev ev_done_step evs)"
          "snd acc' = snd acc + reward ts' + sum_list (map ev_reward evs)"
          "s = Returned \<longrightarrow> count_ev ev_last evs = (if last_ts ts' then 0 else 1)"
        unfolding g2 by auto
      have "trace w' = trace w @ (Act m (global_step w) True # EnvStep EvalEnv action r # evs)"
        using e(1) t2 by simp
      moreover have "list_all (eval_event m (global_step w))
          (Act m (global_step w) True # EnvStep EvalEnv action r # evs)"
        using e(2) by simp
      moreover have "count_ev (is_env_reset EvalEnv)
          (Act m (global_step w) True # EnvStep EvalEnv action r # evs) = 0"
        using e(3) by simp
      moreover have "fst acc' = fst acc
          + int (count_ev ev_done_step (Act m (global_step w) True # EnvStep EvalEnv action r # evs))"
        using e(4) Inr by simp
      moreover have "snd acc' = snd acc
          + sum_list (map ev_reward (Act m (global_step w) True # EnvStep EvalEnv action r # evs))"
        using e(5) Inr by simp
      moreover have "s = Returned \<longrightarrow>
          count_ev ev_last (Act m (global_step w) True # EnvStep EvalEnv action r # evs)
            = (if last_ts ts then 0 else 1)"
        using e(6) Inr False by simp
      ultimately show ?thesis by blast
    qed
  qed
qed


lemma eval_episodes_frame:
  "eval_episodes n c m acc w = (s, acc', w') \<Longrightarrow> same_training_state w w'"
proof (induction n arbitrary: acc w)
  case 0
  then show ?case by simp
next
  case (Suc n)
  obtain st ep tot where acc: "acc = (st, ep, tot)"
    by (cases acc)
  show ?case
  proof (cases "Until (real_of_int (num_eval_episodes (cfg w))) 1 ep")
    case False
    with Suc.prems acc show ?thesis by simp
  next
    case True
    obtain r e where rs: "env_reset c (eval_env w) = (r, e)"
      by (cases "env_reset c (eval_env w)")
    let ?w1 = "emit (EnvReset EvalEnv r) (w\<lparr>eval_env := e\<rparr>)"
    have f1: "same_training_state w ?w1"
      by (simp add: same_training_state_def emit_def)
    show ?thesis
    proof (cases r)
      case (Inl x)
      with Suc.prems acc True rs have "w' = ?w1" by (simp add: Let_def)
      with f1 show ?thesis by simp
    next
      case (Inr ts)
      obtain s1 st1 tot1 w2 where es: "eval_steps n c m ts (st, tot) ?w1 = (s1, (st1, tot1), w2)"
        by (cases "eval_steps n c m ts (st, tot) ?w1") auto
      have f2: "same_training_state w w2"
        using same_training_state_trans [OF f1 eval_steps_frame [OF es]] .
      show ?thesis
      proof (cases "s1 = Returned")
        case True
        with Suc.prems acc \<open>Until _ _ _\<close> rs Inr es
        have "eval_episodes n c m (st1, ep + 1, tot1) w2 = (s, acc', w')"
          by (simp add: Let_def)
        from same_training_state_trans [OF f2 Suc.IH [OF this]] show ?thesis .
      next
        case False
        with Suc.prems acc \<open>Until _ _ _\<close> rs Inr es have "w' = w2"
          by (cases s1) (simp_all add: Let_def)
        with f2 show ?thesis by simp
      qed
    qed
  qed
qed

lemma eval_episodes_events:
  "eval_episodes n c m (st, ep, tot) w = (s, (st', ep', tot'), w') \<Longrightarrow>
     \<exists>evs. trace w' = trace w @ evs
       \<and> list_all (eval_event m (global_step w)) evs
       \<and> st' = st + int (count_ev ev_done_step evs)
       \<and> tot' = tot + sum_list (map ev_reward evs)
       \<and> (s = Returned \<longrightarrow>
            ep \<le> ep' \<and> \<not> ep' < num_eval_episodes (cfg w)
            \<and> (ep < num_eval_episodes (cfg w) \<longrightarrow> ep' = num_eval_episodes (cfg w))
            \<and> (\<not> ep < num_eval_episodes (cfg w) \<longrightarrow> ep' = ep)
            \<and> count_ev (is_env_reset EvalEnv) evs = nat (ep' - ep)
            \<and> count_ev ev_last evs = nat (ep' - ep))"
proof (induction n arbitrary: st ep tot w)
  case 0
  then show ?case by simp
next
  case (Suc n)
  show ?case
  proof (cases "ep < num_eval_episodes (cfg w)")
    case False
    with Suc.prems show ?thesis by (simp add: Until_one)
  next
    case True
    obtain r e where rs: "env_reset c (eval_env w) = (r, e)"
      by (cases "env_reset c (eval_env w)")
    let ?w1 = "emit (EnvReset EvalEnv r) (w\<lparr>eval_env := e\<rparr>)"
    have t1: "trace ?w1 = trace w @ [EnvReset EvalEnv r]"
      and g1: "global_step ?w1 = global_step w" and c1: "cfg ?w1 = cfg w"
      by (simp_all add: emit_def)
    show ?thesis
    proof (cases r)
      case (Inl x)
      with Suc.prems True rs
      have "w' = ?w1" "st' = st" "tot' = tot" "s = Raised x"
        by (simp_all add: Let_def Until_one)
      with t1 Inl show ?thesis by simp
    next
      case (Inr ts)
      obtain s1 st1 tot1 w2 where es: "eval_steps n c m ts (st, tot) ?w1 = (s1, (st1, tot1), w2)"
        by (cases "eval_steps n c m ts (st, tot) ?w1") auto
      from eval_steps_events [OF es] obtain evs1 where
        e1: "trace w2 = trace ?w1 @ evs1"
          "list_all (eval_event m (global_step w)) evs1"
          "count_ev (is_env_reset EvalEnv) evs1 = 0"
          "st1 = st + int (count_ev ev_done_step evs1)"
          "tot1 = tot + sum_list (map ev_reward evs1)"
          "s1 = Returned \<longrightarrow> count_ev ev_last evs1 = (if last_ts ts then 0 else 1)"
        unfolding g1 by auto
      from eval_steps_frame [OF es]
      have g2: "global_step w2 = global_step w" and c2: "cfg w2 = cfg w"
        by (simp_all add: same_training_state_def emit_def)
      show ?thesis
      proof (cases "s1 = Returned")
        case False
        with Suc.prems True rs Inr es
        have "w' = w2" "st' = st1" "tot' = tot1" "s = s1"
          by (cases s1; simp add: Let_def Until_one)+
        with False e1 t1 Inr show ?thesis by simp
      next
        case R: True
        with Suc.prems True rs Inr es
        have "eval_episodes n c m (st1, ep + 1, tot1) w2 = (s, (st', ep', tot'), w')"
          by (simp add: Let_def Until_one)
        from Suc.IH [OF this] obtain evs2 where
          e2: "trace w' = trace w2 @ evs2"
            "list_all (eval_event m (global_step w)) evs2"
            "st' = st1 + int (count_ev ev_done_step evs2)"
            "tot' = tot1 + sum_list (map ev_reward evs2)"
            "s = Returned \<longrightarrow>
              ep + 1 \<le> ep' \<and> \<not> ep' < num_eval_episodes (cfg w)
              \<and> (ep + 1 < num_eval_episodes (cfg w) \<longrightarrow> ep' = num_eval_episodes (cfg w))
              \<and> (\<not> ep + 1 < num_eval_episodes (cfg w) \<longrightarrow> ep' = ep + 1)
              \<and> count_ev (is_env_reset EvalEnv) evs2 = nat (ep' - (ep + 1))
              \<and> count_ev ev_last evs2 = nat (ep' - (ep + 1))"
          unfolding g2 c2 by auto
        let ?evs = "EnvReset EvalEnv r # evs1 @ evs2"
        have "trace w' = trace w @ ?evs"
          using e2(1) e1(1) t1 by simp
        moreover have "list_all (eval_event m (global_step w)) ?evs"
          using e1(2) e2(2) by simp
        moreover have "st' = st + int (count_ev ev_done_step ?evs)"
          using e1(4) e2(3) Inr by simp
        moreover have "tot' = tot + sum_list (map ev_reward ?evs)"
          using e1(5) e2(4) Inr by simp
        moreover have "s = Returned \<longrightarrow>
            ep \<le> ep' \<and> \<not> ep' < num_eval_episodes (cfg w)
            \<and> (ep < num_eval_episodes (cfg w) \<longrightarrow> ep' = num_eval_episodes (cfg w))
            \<and> (\<not> ep < num_eval_episodes (cfg w) \<longrightarrow> ep' = ep)
            \<and> count_ev (is_env_reset EvalEnv) ?evs = nat (ep' - ep)
            \<and> count_ev ev_last ?evs = nat (ep' - ep)"
        proof
          assume sr: "s = Returned"
          with e2(5) have h: "ep + 1 \<le> ep'" "\<not> ep' < num_eval_episodes (cfg w)"
            "ep + 1 < num_eval_episodes (cfg w) \<longrightarrow> ep' = num_eval_episodes (cfg w)"
            "\<not> ep + 1 < num_eval_episodes (cfg w) \<longrightarrow> ep' = ep + 1"
            "count_ev (is_env_reset EvalEnv) evs2 = nat (ep' - (ep + 1))"
            "count_ev ev_last evs2 = nat (ep' - (ep + 1))"
            by simp_all
          have l1: "count_ev ev_last evs1 = (if last_ts ts then 0 else 1)"
            using e1(6) R by simp
          have a: "ep' = num_eval_episodes (cfg w)"
            using h(1,2,3,4) True by (cases "ep + 1 < num_eval_episodes (cfg w)") simp_all
          have b: "count_ev (is_env_reset EvalEnv) ?evs = nat (ep' - ep)"
            using h(1,5) e1(3) Inr by (simp add: nat_diff_distrib')
          have d: "count_ev ev_last ?evs = nat (ep' - ep)"
            using h(1,6) l1 Inr by (simp add: nat_diff_distrib')
          show "ep \<le> ep' \<and> \<not> ep' < num_eval_episodes (cfg w)
            \<and> (ep < num_eval_episodes (cfg w) \<longrightarrow> ep' = num_eval_episodes (cfg w))
            \<and> (\<not> ep < num_eval_episodes (cfg w) \<longrightarrow> ep' = ep)
            \<and> count_ev (is_env_reset EvalEnv) ?evs = nat (ep' - ep)
            \<and> count_ev ev_last ?evs = nat (ep' - ep)"
            using h(1,2) a b d True by simp
        qed
        ultimately show ?thesis by blast
      qed
    qed
  qed
qed


lemma eval_event_quiet: "eval_event m s e \<Longrightarrow> quiet e"
  by (cases e) (auto simp: quiet_def)



lemma quiet_counts:
  "list_all quiet evs \<Longrightarrow>
     count_ev is_update evs = 0 \<and> count_ev is_train_env evs = 0 \<and> count_ev is_save evs = 0
     \<and> count_ev (is_env_step TrainEnv) evs = 0"
proof (induction evs)
  case Nil
  then show ?case by simp
next
  case (Cons e evs)
  then show ?case by (cases e) (auto simp: quiet_def)
qed

text \<open>What \<^verbatim>\<open>eval\<close> does, by the outcome of its episode loop.\<close>

lemma eval_cases:
  assumes "ag_init_meta c (agent w) = (m, g)"
    and "eval_episodes n c m (0, 0, 0) (emit (InitMeta m) (w\<lparr>agent := g\<rparr>)) = (s1, (st, ep, tot), w1)"
  shows "eval n c w =
     (if s1 = Returned then
        (if ep = 0 then (Raised ZeroDivisionError, w1)
         else (Returned,
               emit (LogDump ''eval'' (global_frame w1)
                 [(''episode_reward'', tot / real_of_int ep),
                  (''episode_length'', real_of_int (st * action_repeat (cfg w1)) / real_of_int ep),
                  (''episode'', real_of_int (global_episode w1)),
                  (''step'', real_of_int (global_step w1))]) w1))
      else (s1, w1))"
  using assms by (cases s1) (simp_all add: eval_def Let_def)

lemma eval_frame: "same_training_state w (snd (eval n c w))"
proof -
  obtain m g where a: "ag_init_meta c (agent w) = (m, g)"
    by (cases "ag_init_meta c (agent w)")
  let ?w0 = "emit (InitMeta m) (w\<lparr>agent := g\<rparr>)"
  obtain s1 st ep tot w1 where e: "eval_episodes n c m (0, 0, 0) ?w0 = (s1, (st, ep, tot), w1)"
    by (cases "eval_episodes n c m (0, 0, 0) ?w0") auto
  have "same_training_state w ?w0"
    by (simp add: same_training_state_def emit_def)
  from same_training_state_trans [OF this eval_episodes_frame [OF e]]
  show ?thesis
    by (simp add: eval_cases [OF a e] same_training_state_def emit_def)
qed

lemma eval_quiet:
  "\<exists>evs. trace (snd (eval n c w)) = trace w @ evs \<and> list_all quiet evs"
proof -
  obtain m g where a: "ag_init_meta c (agent w) = (m, g)"
    by (cases "ag_init_meta c (agent w)")
  let ?w0 = "emit (InitMeta m) (w\<lparr>agent := g\<rparr>)"
  obtain s1 st ep tot w1 where e: "eval_episodes n c m (0, 0, 0) ?w0 = (s1, (st, ep, tot), w1)"
    by (cases "eval_episodes n c m (0, 0, 0) ?w0") auto
  from eval_episodes_events [OF e] obtain evs where
    v: "trace w1 = trace ?w0 @ evs" "list_all (eval_event m (global_step ?w0)) evs"
    by auto
  have q: "list_all quiet evs"
    using v(2) by (auto simp: list_all_iff intro: eval_event_quiet)
  have t1: "trace w1 = trace w @ InitMeta m # evs"
    using v(1) by (simp add: emit_def)
  have q1: "list_all quiet (InitMeta m # evs)"
    using q by (simp add: quiet_def)
  have q2: "list_all quiet ((InitMeta m # evs) @ [LogDump a b d])" for a b d
    using q1 by (simp add: quiet_def)
  show ?thesis
  proof (cases "s1 = Returned \<and> ep \<noteq> 0")
    case True
    then have "trace (snd (eval n c w)) = trace w @ ((InitMeta m # evs) @
        [LogDump ''eval'' (global_frame w1)
                 [(''episode_reward'', tot / real_of_int ep),
                  (''episode_length'', real_of_int (st * action_repeat (cfg w1)) / real_of_int ep),
                  (''episode'', real_of_int (global_episode w1)),
                  (''step'', real_of_int (global_step w1))]])"
      by (simp add: eval_cases [OF a e] emit_def t1)
    with q2 show ?thesis by blast
  next
    case False
    then have "trace (snd (eval n c w)) = trace w @ (InitMeta m # evs)"
      by (auto simp add: eval_cases [OF a e] t1)
    with q1 show ?thesis by blast
  qed
qed

text \<open>
  C5. Whatever way a call of \<^verbatim>\<open>eval\<close> ends (it returns, it raises, or it is still
  running when the fuel is used up), the workspace it has reached has the
  \<^verbatim>\<open>_global_step\<close>, the \<^verbatim>\<open>_global_episode\<close> and the training environment it started
  with, the earlier trace is a prefix of the new one, and no call of the training
  environment is among the new events.
\<close>

theorem eval_isolation:
  "global_step (snd (eval n c w)) = global_step w
   \<and> global_episode (snd (eval n c w)) = global_episode w
   \<and> train_env (snd (eval n c w)) = train_env w
   \<and> take (length (trace w)) (trace (snd (eval n c w))) = trace w
   \<and> count_ev is_train_env (new_events w (snd (eval n c w))) = 0"
proof -
  from eval_quiet [of n c w] obtain evs where
    e: "trace (snd (eval n c w)) = trace w @ evs" "list_all quiet evs"
    by blast
  have "new_events w (snd (eval n c w)) = evs"
    by (simp add: new_events_def e(1))
  with quiet_counts [OF e(2)] eval_frame [of w n c] e(1) show ?thesis
    by (simp add: same_training_state_def)
qed




section \<open>One iteration of the training loop\<close>

lemma step_rel_refl [simp]: "step_rel v w w"
  by (simp add: step_rel_def)

lemma step_rel_trans: "step_rel v w w1 \<Longrightarrow> step_rel v w1 w2 \<Longrightarrow> step_rel v w w2"
  by (auto simp: step_rel_def)

lemma bind_st_cases: "bind_st (s, x) f = (if s = Returned then f x else (s, x))"
  by (cases s) (simp_all add: bind_st_def)

lemma quiet_prelude_ok: "quiet e \<Longrightarrow> prelude_ok v e"
  by (cases e) (auto simp: quiet_def prelude_ok_def)

lemma reset_episode_rel:
  "reset_episode c (l, w) = (s, (l1, w1)) \<Longrightarrow> step_rel v w w1"
  by (auto simp: reset_episode_def Let_def emit_def replay_add_def step_rel_def prelude_ok_def
      fs_ready_def snapshot_file_def split: prod.splits sum.splits)

lemma episode_boundary_rel:
  "episode_boundary c (l, w) = (s, (l1, w1)) \<Longrightarrow> step_rel v w w1"
proof (cases "last_ts (time_step l)")
  case False
  assume "episode_boundary c (l, w) = (s, (l1, w1))"
  with False show ?thesis by (simp add: episode_boundary_def)
next
  case True
  assume a: "episode_boundary c (l, w) = (s, (l1, w1))"
  let ?w1 = "w\<lparr>global_episode := global_episode w + 1\<rparr>"
  obtain w2 where r: "reset_episode c (l, w2) = (s, (l1, w1))" and w2: "step_rel v w w2"
  proof (cases "metrics l")
    case None
    with a True have "reset_episode c (l, ?w1) = (s, (l1, w1))"
      by (simp add: episode_boundary_def Let_def)
    moreover have "step_rel v w ?w1"
      by (simp add: step_rel_def fs_ready_def snapshot_file_def)
    ultimately show ?thesis by (rule that)
  next
    case (Some ms)
    let ?w2 = "emit (LogDump ''train'' (global_frame ?w1)
                        [(''episode_reward'', episode_reward l),
                         (''episode_length'',
                            real_of_int (episode_step l * action_repeat (cfg ?w1))),
                         (''episode'', real_of_int (global_episode ?w1)),
                         (''buffer_size'', real (length (replay_storage ?w1))),
                         (''step'', real_of_int (global_step ?w1))]) ?w1"
    from Some a True have "reset_episode c (l, ?w2) = (s, (l1, w1))"
      by (simp add: episode_boundary_def Let_def)
    moreover have "step_rel v w ?w2"
      by (simp add: step_rel_def emit_def prelude_ok_def fs_ready_def snapshot_file_def)
    ultimately show ?thesis by (rule that)
  qed
  from step_rel_trans [OF w2 reset_episode_rel [OF r]] show ?thesis .
qed

lemma save_snapshot_rel:
  "step_rel Pretrain w (snd (save_snapshot w))
   \<and> (fs_ready w \<longrightarrow> save_snapshot w = (Returned, saved w))"
proof (cases "save_blocked w")
  case False
  have "trace (saved w) = trace w @ [SaveSnapshot (snapshot_path w)]"
    by (simp add: saved_def)
  then have "step_rel Pretrain w (saved w)"
    using fs_ready_saved [of w] by (simp add: step_rel_def prelude_ok_def)
  with False show ?thesis
    by (simp add: save_snapshot_ok)
next
  case True
  then have n: "\<not> fs_ready w"
    using fs_ready_not_blocked by blast
  from True have "snd (save_snapshot w) = w
      \<or> snd (save_snapshot w)
          = w\<lparr>dirs := insert (joinpath (work_dir w) (snapshot_dir (cfg w))) (dirs w)\<rparr>"
    by (auto simp: save_snapshot_eq save_blocked_def)
  with n show ?thesis
    by (auto simp: step_rel_def)
qed

lemma try_snapshot_rel:
  "try_snapshot v (l, w) = (s, (l1, w1)) \<Longrightarrow>
     step_rel v w w1 \<and> l1 = l \<and> (v = Finetune \<or> fs_ready w \<longrightarrow> s = Returned)"
  using save_snapshot_rel [of w]
  by (cases "save_snapshot w") (auto simp: try_snapshot_def split: if_splits)

lemma try_eval_rel:
  assumes "try_eval n ee c (l, w) = (s, (l1, w1))"
  shows "step_rel v w w1 \<and> l1 = l \<and> (\<not> ee (global_step w) \<longrightarrow> s = Returned)"
proof (cases "ee (global_step w)")
  case False
  with assms show ?thesis by (simp add: try_eval_def)
next
  case True
  let ?w0 = "emit (LogEvalTotalTime (global_frame w)) w"
  from True assms have e: "w1 = snd (eval n c ?w0)" "l1 = l"
    by (auto simp: try_eval_def split: prod.splits)
  have 0: "step_rel v w ?w0"
    by (simp add: step_rel_def emit_def prelude_ok_def fs_ready_def snapshot_file_def)
  from eval_quiet [of n c ?w0] obtain evs where
    q: "trace w1 = trace ?w0 @ evs" "list_all quiet evs"
    unfolding e by blast
  have "list_all (prelude_ok v) evs"
    using q(2) by (auto simp: list_all_iff intro: quiet_prelude_ok)
  moreover from eval_frame [of ?w0 n c] have "fs_ready w1 = fs_ready ?w0"
    unfolding e by (intro fs_ready_cong) (simp_all add: same_training_state_def)
  ultimately have "step_rel v ?w0 w1"
    using q(1) eval_frame [of ?w0 n c]
    unfolding e by (auto simp: step_rel_def same_training_state_def)
  from step_rel_trans [OF 0 this] e True show ?thesis by simp
qed

lemma tick_prelude_rel:
  assumes "tick_prelude v n ee c (l, w) = (s, (l1, w1))"
  shows "step_rel v w w1"
proof -
  obtain s0 l0 w0 where b: "episode_boundary c (l, w) = (s0, (l0, w0))"
    by (cases "episode_boundary c (l, w)") auto
  note r0 = episode_boundary_rel [OF b, of v]
  show ?thesis
  proof (cases "s0 = Returned")
    case False
    with assms b have "w1 = w0"
      by (simp add: tick_prelude_def bind_st_cases)
    with r0 show ?thesis by simp
  next
    case True
    obtain s2 l2 w2 where t: "try_snapshot v (l0, w0) = (s2, (l2, w2))"
      by (cases "try_snapshot v (l0, w0)") auto
    note r2 = try_snapshot_rel [OF t]
    show ?thesis
    proof (cases "s2 = Returned")
      case False
      with assms b True t have "w1 = w2"
        by (simp add: tick_prelude_def bind_st_cases)
      with r2 r0 show ?thesis
        by (blast intro: step_rel_trans)
    next
      case R: True
      with assms b True t have "try_eval n ee c (l2, w2) = (s, (l1, w1))"
        by (simp add: tick_prelude_def bind_st_cases)
      from try_eval_rel [OF this, of v] r2 r0 show ?thesis
        by (blast intro: step_rel_trans)
    qed
  qed
qed

text \<open>The part of a tick after the prelude.\<close>

lemma tick_tail_events:
  assumes "select_action c (l1, w1) = (a, (l2, w2))"
    and "env_transition c a (try_update su c (l2, w2)) = (s, (l', w'))"
  shows "\<exists>m r. trace w' = trace w1 @ [UpdateMeta (global_step w1), Act m (global_step w1) False]
           @ (if su (global_step w1) then []
              else [Update (global_step w1), LogMetrics (global_frame w1)])
           @ EnvStep TrainEnv a r # (if s = Returned then [ReplayAdd] else [])"
    and "cfg w' = cfg w1" and "files w' = files w1" and "dirs w' = dirs w1"
    and "global_step w' = (if s = Returned then global_step w1 + 1 else global_step w1)"
    and "work_dir w' = work_dir w1"
  using assms
  by (auto simp: select_action_def try_update_def env_transition_def Let_def emit_def
      replay_add_def global_frame_def split: prod.splits sum.splits if_splits)


lemma prelude_ok_counts:
  "list_all (prelude_ok v) evs \<Longrightarrow>
     count_ev is_update evs = 0 \<and> count_ev (is_env_step TrainEnv) evs = 0
     \<and> (v = Finetune \<longrightarrow> count_ev is_save evs = 0)"
  by (induction evs) (auto simp: prelude_ok_def split: if_splits)

lemma Until_frames:
  "Until tot 1 s = (real_of_int s < tot)"
  by (simp add: Until_def less_ceiling_iff)

lemma Until_global_frame:
  assumes "0 < k"
  shows "Until tot k s = (real_of_int (s * k) < tot)"
proof -
  have "Until tot k s = (real_of_int s < tot / real_of_int k)"
    by (simp add: Until_def less_ceiling_iff)
  also have "\<dots> = (real_of_int s * real_of_int k < tot)"
    using assms by (simp add: pos_less_divide_eq)
  finally show ?thesis by simp
qed

lemma tick_fs_ready:
  assumes "train_tick v n su ee c (l, w) = (s, (l', w'))" and "fs_ready w"
  shows "fs_ready w'"
proof -
  obtain s1 l1 w1 where p: "tick_prelude v n ee c (l, w) = (s1, (l1, w1))"
    by (cases "tick_prelude v n ee c (l, w)") auto
  from tick_prelude_rel [OF p] assms(2) have f1: "fs_ready w1"
    by (simp add: step_rel_def)
  show ?thesis
  proof (cases "s1 = Returned")
    case False
    with assms(1) p have "w' = w1"
      by (simp add: train_tick_def bind_st_cases)
    with f1 show ?thesis by simp
  next
    case True
    obtain a l2 w2 where sa: "select_action c (l1, w1) = (a, (l2, w2))"
      by (cases "select_action c (l1, w1)") auto
    from True assms(1) p sa
    have et: "env_transition c a (try_update su c (l2, w2)) = (s, (l', w'))"
      by (simp add: train_tick_def bind_st_cases)
    have "fs_ready w' = fs_ready w1"
      using tick_tail_events(2,3,4,6) [OF sa et] by (intro fs_ready_cong)
    with f1 show ?thesis by simp
  qed
qed

lemma tick_completed:
  assumes "train_tick v n su ee c (l, w) = (Returned, (l', w'))"
  shows "(\<exists>pre m a r.
            new_events w w' =
              pre @ [UpdateMeta (global_step w), Act m (global_step w) False]
                @ (if su (global_step w) then []
                   else [Update (global_step w), LogMetrics (global_frame w)])
                @ [EnvStep TrainEnv a r, ReplayAdd]
            \<and> count_ev is_update pre = 0 \<and> count_ev (is_env_step TrainEnv) pre = 0)
    \<and> count_ev is_update (new_events w w') = (if su (global_step w) then 0 else 1)
    \<and> count_ev (is_env_step TrainEnv) (new_events w w') = 1
    \<and> global_step w' = global_step w + 1
    \<and> (0 < action_repeat (cfg w) \<longrightarrow>
          Until (num_seed_frames (cfg w)) (action_repeat (cfg w)) (global_step w)
            = (real_of_int (global_frame w) < num_seed_frames (cfg w)))
    \<and> (0 < action_repeat (cfg w) \<longrightarrow>
          Until (num_train_frames (cfg w)) (action_repeat (cfg w)) (global_step w)
            = (real_of_int (global_frame w) < num_train_frames (cfg w)))
    \<and> (0 < action_repeat (cfg w)
          \<and> su = Until (num_seed_frames (cfg w)) (action_repeat (cfg w)) \<longrightarrow>
          count_ev is_update (new_events w w')
            = (if real_of_int (global_frame w) < num_seed_frames (cfg w) then 0 else 1))"
proof -
  obtain s1 l1 w1 where p: "tick_prelude v n ee c (l, w) = (s1, (l1, w1))"
    by (cases "tick_prelude v n ee c (l, w)") auto
  obtain a l2 w2 where sa: "select_action c (l1, w1) = (a, (l2, w2))"
    by (cases "select_action c (l1, w1)") auto
  from assms p have s1: "s1 = Returned"
    by (auto simp: train_tick_def bind_st_cases split: if_splits)
  with assms p sa have et: "env_transition c a (try_update su c (l2, w2)) = (Returned, (l', w'))"
    by (simp add: train_tick_def bind_st_cases)
  from tick_prelude_rel [OF p] obtain pre where
    pre: "trace w1 = trace w @ pre" "list_all (prelude_ok v) pre"
    and g1: "global_step w1 = global_step w" "cfg w1 = cfg w"
    by (auto simp: step_rel_def)
  have gf: "global_frame w1 = global_frame w"
    by (simp add: global_frame_def g1)
  from tick_tail_events(1) [OF sa et] obtain m r where
    t: "trace w' = trace w1 @ [UpdateMeta (global_step w), Act m (global_step w) False]
           @ (if su (global_step w) then []
              else [Update (global_step w), LogMetrics (global_frame w)])
           @ [EnvStep TrainEnv a r, ReplayAdd]"
    unfolding g1 gf by auto
  have ne: "new_events w w' =
      pre @ [UpdateMeta (global_step w), Act m (global_step w) False]
        @ (if su (global_step w) then []
           else [Update (global_step w), LogMetrics (global_frame w)])
        @ [EnvStep TrainEnv a r, ReplayAdd]"
    by (simp add: new_events_def t pre(1))
  note pc = prelude_ok_counts [OF pre(2)]
  have 1: "\<exists>pre m a r.
            new_events w w' =
              pre @ [UpdateMeta (global_step w), Act m (global_step w) False]
                @ (if su (global_step w) then []
                   else [Update (global_step w), LogMetrics (global_frame w)])
                @ [EnvStep TrainEnv a r, ReplayAdd]
            \<and> count_ev is_update pre = 0 \<and> count_ev (is_env_step TrainEnv) pre = 0"
    using ne pc by blast
  have 2: "count_ev is_update (new_events w w') = (if su (global_step w) then 0 else 1)"
    using pc by (simp add: ne)
  have 3: "count_ev (is_env_step TrainEnv) (new_events w w') = 1"
    using pc by (simp add: ne)
  have 4: "global_step w' = global_step w + 1"
    using tick_tail_events(5) [OF sa et] g1 by simp
  have 5: "0 < action_repeat (cfg w) \<longrightarrow>
          Until (num_seed_frames (cfg w)) (action_repeat (cfg w)) (global_step w)
            = (real_of_int (global_frame w) < num_seed_frames (cfg w))"
    by (simp add: Until_global_frame global_frame_def)
  have 6: "0 < action_repeat (cfg w) \<longrightarrow>
          Until (num_train_frames (cfg w)) (action_repeat (cfg w)) (global_step w)
            = (real_of_int (global_frame w) < num_train_frames (cfg w))"
    by (simp add: Until_global_frame global_frame_def)
  have 7: "0 < action_repeat (cfg w)
          \<and> su = Until (num_seed_frames (cfg w)) (action_repeat (cfg w)) \<longrightarrow>
          count_ev is_update (new_events w w')
            = (if real_of_int (global_frame w) < num_seed_frames (cfg w) then 0 else 1)"
    using 2 5 by auto
  from 1 2 3 4 5 6 7 show ?thesis by blast
qed



section \<open>Nine steps against an environment with episodes of three steps\<close>

lemma env3_stepD:
  assumes "last_every_3rd c calls"
  obtains ts e' where "env_step c a e = (Inr ts, e')" "calls e' = Suc (calls e)"
    "last_ts ts = (3 dvd Suc (calls e))"
proof -
  from assms have "case env_step c a e of
               (Inr ts, e') \<Rightarrow> calls e' = Suc (calls e) \<and> last_ts ts = (3 dvd Suc (calls e))
             | (Inl x, e') \<Rightarrow> False"
    by (simp add: last_every_3rd_def)
  then show ?thesis
    by (cases "env_step c a e") (auto split: sum.splits intro: that)
qed

lemma env3_resetD:
  assumes "last_every_3rd c calls"
  obtains ts e' where "env_reset c e = (Inr ts, e')" "calls e' = calls e" "\<not> last_ts ts"
proof -
  from assms have "case env_reset c e of
               (Inr ts, e') \<Rightarrow> calls e' = calls e \<and> \<not> last_ts ts
             | (Inl x, e') \<Rightarrow> False"
    by (simp add: last_every_3rd_def)
  then show ?thesis
    by (cases "env_reset c e") (auto split: sum.splits intro: that)
qed

lemma reset_episode_env3:
  assumes "last_every_3rd c calls" and "reset_episode c (l, w) = (s, (l1, w1))"
  shows "s = Returned \<and> calls (train_env w1) = calls (train_env w) \<and> \<not> last_ts (time_step l1)
         \<and> global_episode w1 = global_episode w"
proof -
  from assms(1) obtain ts e' where
    r: "env_reset c (train_env w) = (Inr ts, e')" "calls e' = calls (train_env w)" "\<not> last_ts ts"
    by (rule env3_resetD)
  with assms(2) show ?thesis
    by (auto simp: reset_episode_def Let_def emit_def replay_add_def split: prod.splits)
qed

lemma episode_boundary_env3:
  assumes "last_every_3rd c calls" and "episode_boundary c (l, w) = (s, (l1, w1))"
  shows "s = Returned \<and> calls (train_env w1) = calls (train_env w)
         \<and> global_episode w1 = global_episode w + (if last_ts (time_step l) then 1 else 0)"
proof (cases "last_ts (time_step l)")
  case False
  with assms(2) show ?thesis by (simp add: episode_boundary_def)
next
  case True
  let ?w1 = "w\<lparr>global_episode := global_episode w + 1\<rparr>"
  obtain w2 where r: "reset_episode c (l, w2) = (s, (l1, w1))"
    and w2: "train_env w2 = train_env w" "global_episode w2 = global_episode w + 1"
  proof (cases "metrics l")
    case None
    with assms(2) True have "reset_episode c (l, ?w1) = (s, (l1, w1))"
      by (simp add: episode_boundary_def Let_def)
    then show ?thesis by (rule that) simp_all
  next
    case (Some ms)
    let ?w2 = "emit (LogDump ''train'' (global_frame ?w1)
                        [(''episode_reward'', episode_reward l),
                         (''episode_length'',
                            real_of_int (episode_step l * action_repeat (cfg ?w1))),
                         (''episode'', real_of_int (global_episode ?w1)),
                         (''buffer_size'', real (length (replay_storage ?w1))),
                         (''step'', real_of_int (global_step ?w1))]) ?w1"
    from Some assms(2) True have "reset_episode c (l, ?w2) = (s, (l1, w1))"
      by (simp add: episode_boundary_def Let_def)
    then show ?thesis by (rule that) (simp_all add: emit_def)
  qed
  from reset_episode_env3 [OF assms(1) r] w2 True show ?thesis by simp
qed

lemma try_snapshot_keeps:
  "try_snapshot v (l, w) = (s, (l1, w1)) \<Longrightarrow>
     train_env w1 = train_env w \<and> global_episode w1 = global_episode w"
  by (auto simp: try_snapshot_def save_snapshot_eq split: if_splits)

lemma try_eval_keeps:
  assumes "try_eval n ee c (l, w) = (s, (l1, w1))"
  shows "train_env w1 = train_env w \<and> global_episode w1 = global_episode w"
proof (cases "ee (global_step w)")
  case False
  with assms show ?thesis by (simp add: try_eval_def)
next
  case True
  let ?w0 = "emit (LogEvalTotalTime (global_frame w)) w"
  from True assms have e: "w1 = snd (eval n c ?w0)"
    by (auto simp: try_eval_def split: prod.splits)
  from eval_frame [of ?w0 n c] show ?thesis
    unfolding e by (simp add: same_training_state_def emit_def)
qed

lemma tick_prelude_env3:
  assumes "last_every_3rd c calls" and "tick_prelude v n ee c (l, w) = (s, (l1, w1))"
  shows "(\<not> ee (global_step w) \<and> (v = Finetune \<or> fs_ready w) \<longrightarrow> s = Returned)
         \<and> (s = Returned \<longrightarrow> calls (train_env w1) = calls (train_env w)
              \<and> global_episode w1
                  = global_episode w + (if last_ts (time_step l) then 1 else 0))"
proof -
  obtain s0 l0 w0 where b: "episode_boundary c (l, w) = (s0, (l0, w0))"
    by (cases "episode_boundary c (l, w)") auto
  note r0 = episode_boundary_env3 [OF assms(1) b]
  note g0 = episode_boundary_rel [OF b, of v]
  obtain s2 l2 w2 where t: "try_snapshot v (l0, w0) = (s2, (l2, w2))"
    by (cases "try_snapshot v (l0, w0)") auto
  note r2 = try_snapshot_rel [OF t] try_snapshot_keeps [OF t]
  have f0: "v = Finetune \<or> fs_ready w \<longrightarrow> s2 = Returned"
    using g0 r2(1) by (auto simp: step_rel_def)
  show ?thesis
  proof (cases "s2 = Returned")
    case False
    with assms(2) b r0 t have "s = s2"
      by (simp add: tick_prelude_def bind_st_cases)
    with False f0 show ?thesis by auto
  next
    case True
    with assms(2) b r0 t have e: "try_eval n ee c (l2, w2) = (s, (l1, w1))"
      by (simp add: tick_prelude_def bind_st_cases)
    have g2: "global_step w2 = global_step w"
      using g0 r2(1) by (simp add: step_rel_def)
    from try_eval_rel [OF e, of v] try_eval_keeps [OF e] r0 r2 g2 show ?thesis
      by simp
  qed
qed

lemma tick_tail_env3:
  assumes "last_every_3rd c calls"
    and "select_action c (l1, w1) = (a, (l2, w2))"
    and "env_transition c a (try_update su c (l2, w2)) = (s, (l', w'))"
  shows "s = Returned \<and> calls (train_env w') = Suc (calls (train_env w1))
         \<and> last_ts (time_step l') = (3 dvd Suc (calls (train_env w1)))
         \<and> global_episode w' = global_episode w1"
proof -
  obtain l3 w3 where u: "try_update su c (l2, w2) = (l3, w3)"
    by (cases "try_update su c (l2, w2)")
  have k: "train_env w3 = train_env w1" "global_episode w3 = global_episode w1"
    using assms(2) u
    by (auto simp: select_action_def try_update_def Let_def emit_def split: prod.splits if_splits)
  from assms(1) obtain ts e' where
    r: "env_step c a (train_env w3) = (Inr ts, e')" "calls e' = Suc (calls (train_env w3))"
      "last_ts ts = (3 dvd Suc (calls (train_env w3)))"
    by (rule env3_stepD)
  from assms(3) u r k show ?thesis
    by (auto simp: env_transition_def Let_def emit_def replay_add_def)
qed

lemma tick_env3:
  assumes c: "last_every_3rd c calls"
    and i: "run3_inv calls cf u0 t0 k (l, w)"
    and su: "\<not> su (int k)"
    and t: "train_tick v n su ee c (l, w) = (s, lw')"
  shows "(\<not> ee (int k) \<and> (v = Finetune \<or> fs_ready w) \<longrightarrow> s = Returned)
         \<and> (s = Returned \<longrightarrow> run3_inv calls cf u0 t0 (Suc k) lw')"
proof -
  obtain l' w' where lw': "lw' = (l', w')" by (cases lw')
  obtain s1 l1 w1 where p: "tick_prelude v n ee c (l, w) = (s1, (l1, w1))"
    by (cases "tick_prelude v n ee c (l, w)") auto
  obtain a l2 w2 where sa: "select_action c (l1, w1) = (a, (l2, w2))"
    by (cases "select_action c (l1, w1)") auto
  from i have gs: "global_step w = int k" and cf: "cfg w = cf"
    and ca: "calls (train_env w) = k" and la: "last_ts (time_step l) = (0 < k \<and> 3 dvd k)"
    and ge: "global_episode w = int ((k - 1) div 3)"
    and cu: "count_ev is_update (trace w) = u0 + k"
    and ct: "count_ev (is_env_step TrainEnv) (trace w) = t0 + k"
    by (simp_all add: run3_inv_def)
  note pe = tick_prelude_env3 [OF c p]
  show ?thesis
  proof (cases "s1 = Returned")
    case False
    with t p have "s = s1"
      by (simp add: train_tick_def bind_st_cases lw')
    with False pe gs show ?thesis by auto
  next
    case True
    with t p sa have et: "env_transition c a (try_update su c (l2, w2)) = (s, (l', w'))"
      by (simp add: train_tick_def bind_st_cases lw')
    from tick_tail_env3 [OF c sa et] have
      te: "s = Returned" "calls (train_env w') = Suc (calls (train_env w1))"
        "last_ts (time_step l') = (3 dvd Suc (calls (train_env w1)))"
        "global_episode w' = global_episode w1"
      by simp_all
    from t te(1) have tr: "train_tick v n su ee c (l, w) = (Returned, (l', w'))"
      by (simp add: lw')
    note tc = tick_completed [OF tr]
    from pe True have p1: "calls (train_env w1) = k"
      "global_episode w1 = global_episode w + (if last_ts (time_step l) then 1 else 0)"
      by (simp_all add: ca)
    have prefix: "trace w' = trace w @ new_events w w'"
    proof -
      from tick_prelude_rel [OF p] obtain pre where "trace w1 = trace w @ pre"
        by (auto simp: step_rel_def)
      moreover from tick_tail_events(1) [OF sa et] obtain tl where "trace w' = trace w1 @ tl"
        by blast
      ultimately show ?thesis by (simp add: new_events_def)
    qed
    have nu: "count_ev is_update (new_events w w') = 1"
      using tc su gs by simp
    have nt: "count_ev (is_env_step TrainEnv) (new_events w w') = 1"
      using tc by simp
    have cu': "count_ev is_update (trace w') = u0 + Suc k"
      by (subst prefix) (simp add: cu nu)
    have ct': "count_ev (is_env_step TrainEnv) (trace w') = t0 + Suc k"
      by (subst prefix) (simp add: ct nt)
    have gs': "global_step w' = int (Suc k)"
      using tc gs by simp
    have cf': "cfg w' = cf"
      using tick_tail_events(2) [OF sa et] tick_prelude_rel [OF p] cf
      by (simp add: step_rel_def)
    have ge': "global_episode w' = int ((Suc k - 1) div 3)"
    proof (cases "0 < k \<and> 3 dvd k")
      case True
      then obtain j where j: "k = 3 * j" "0 < j" by (auto elim: dvdE)
      then have "(k - 1) div 3 = j - 1" by (cases j) simp_all
      with te(4) p1(2) la ge True j show ?thesis by simp
    next
      case False
      then have "(k - 1) div 3 = k div 3"
        by (cases k) (auto simp: Suc_div_eq_add3_div dvd_eq_mod_eq_0 div_Suc)
      with te(4) p1(2) la ge False show ?thesis by simp
    qed
    have la': "last_ts (time_step l') = (0 < Suc k \<and> 3 dvd Suc k)"
      using te(3) p1(1) by simp
    from te(1) gs' cf' cu' ct' ge' la' te(2) p1(1) show ?thesis
      by (simp add: run3_inv_def lw')
  qed
qed


lemma train_loop_fs_ready:
  "train_loop n v tu su ee c lw = (s, lw') \<Longrightarrow> fs_ready (snd lw) \<Longrightarrow> fs_ready (snd lw')"
proof (induction n arbitrary: lw)
  case 0
  then show ?case by simp
next
  case (Suc n)
  obtain l w where lw: "lw = (l, w)" by (cases lw)
  show ?case
  proof (cases "tu (global_step w)")
    case False
    with Suc.prems show ?thesis by (simp add: lw)
  next
    case True
    obtain s1 l1 w1 where t: "train_tick v n su ee c (l, w) = (s1, (l1, w1))"
      by (cases "train_tick v n su ee c (l, w)") auto
    from tick_fs_ready [OF t] Suc.prems(2) have f1: "fs_ready w1"
      by (simp add: lw)
    show ?thesis
    proof (cases "s1 = Returned")
      case False
      with Suc.prems(1) True t have "lw' = (l1, w1)"
        by (simp add: lw bind_st_cases)
      with f1 show ?thesis by simp
    next
      case R: True
      with Suc.prems(1) True t have "train_loop n v tu su ee c (l1, w1) = (s, lw')"
        by (simp add: lw bind_st_cases)
      from Suc.IH [OF this] f1 show ?thesis by simp
    qed
  qed
qed

lemma train_loop_env3:
  assumes c: "last_every_3rd c calls" and su: "\<forall>j. \<not> su (int j)"
    and tu: "\<forall>j. tu (int j) = (j < 9)"
  shows "run3_inv calls cf u0 t0 k lw \<Longrightarrow> k \<le> 9 \<Longrightarrow>
     train_loop n v tu su ee c lw = (s, lw') \<Longrightarrow>
     (s = Returned \<longrightarrow> run3_inv calls cf u0 t0 9 lw')
     \<and> ((\<forall>j<9. \<not> ee (int j)) \<and> 9 - k < n \<and> (v = Finetune \<or> fs_ready (snd lw))
          \<longrightarrow> s = Returned)"
proof (induction n arbitrary: k lw)
  case 0
  then show ?case by simp
next
  case (Suc n)
  obtain l w where lw: "lw = (l, w)" by (cases lw)
  from Suc.prems(1) have gs: "global_step w = int k"
    by (simp add: run3_inv_def lw)
  have tk: "tu (global_step w) = (k < 9)"
    using tu gs by simp
  show ?case
  proof (cases "k < 9")
    case False
    with Suc.prems(2) have k: "k = 9" by simp
    from Suc.prems(3) tk False have "s = Returned" "lw' = lw"
      by (simp_all add: lw)
    with Suc.prems(1) k show ?thesis by simp
  next
    case True
    obtain s1 lw1 where t: "train_tick v n su ee c (l, w) = (s1, lw1)"
      by (cases "train_tick v n su ee c (l, w)")
    from su have "\<not> su (int k)" by simp
    note te = tick_env3 [OF c Suc.prems(1) [unfolded lw] this t]
    show ?thesis
    proof (cases "s1 = Returned")
      case False
      with Suc.prems(3) True tk t have "s = s1"
        by (simp add: lw bind_st_cases)
      with False te True show ?thesis by (auto simp: lw)
    next
      case R: True
      with Suc.prems(3) True tk t
      have r: "train_loop n v tu su ee c lw1 = (s, lw')"
        by (simp add: lw bind_st_cases)
      from te R have i: "run3_inv calls cf u0 t0 (Suc k) lw1" by simp
      from True have "Suc k \<le> 9" by simp
      have "fs_ready w \<longrightarrow> fs_ready (snd lw1)"
        using tick_fs_ready [of v n su ee c l w s1 "fst lw1" "snd lw1"] t by simp
      with Suc.IH [OF i \<open>Suc k \<le> 9\<close> r] True show ?thesis
        by (auto simp: lw)
    qed
  qed
qed

lemma train_env3:
  assumes c: "last_every_3rd c calls"
    and w: "calls (train_env w) = 0" "global_step w = 0" "global_episode w = 0"
    and cf: "num_seed_frames (cfg w) = 0" "action_repeat (cfg w) = 1"
      "num_train_frames (cfg w) = 9"
  shows "(fst (train v n c w) = Returned \<longrightarrow>
            global_step (snd (train v n c w)) = 9
            \<and> global_episode (snd (train v n c w)) = 2
            \<and> count_ev is_update (trace (snd (train v n c w)))
                = count_ev is_update (trace w) + 9
            \<and> count_ev (is_env_step TrainEnv) (trace (snd (train v n c w)))
                = count_ev (is_env_step TrainEnv) (trace w) + 9
            \<and> calls (train_env (snd (train v n c w))) = 9)
    \<and> ((\<forall>j<9. \<not> Every (eval_every_frames (cfg w)) 1 (int j)) \<and> 9 < n
          \<and> (v = Finetune \<or> fs_ready w) \<longrightarrow>
          fst (train v n c w) = Returned)"
proof -
  from c obtain ts e' where
    r: "env_reset c (train_env w) = (Inr ts, e')" "calls e' = calls (train_env w)" "\<not> last_ts ts"
    by (rule env3_resetD)
  obtain m g where im: "ag_init_meta c (agent w) = (m, g)"
    by (cases "ag_init_meta c (agent w)")
  let ?w1 = "emit (EnvReset TrainEnv (Inr ts)) (w\<lparr>train_env := e'\<rparr>)"
  let ?w3 = "replay_add ts m (emit (InitMeta m) (?w1\<lparr>agent := g\<rparr>))"
  let ?l = "\<lparr>episode_step = 0, episode_reward = 0, time_step = ts, meta = m, metrics = None\<rparr>"
  let ?ee = "Every (eval_every_frames (cfg w)) 1"
  obtain s l' w'' where lp: "train_loop n v (Until 9 1) (Until 0 1) ?ee c (?l, ?w3) = (s, (l', w''))"
    by (cases "train_loop n v (Until 9 1) (Until 0 1) ?ee c (?l, ?w3)") auto
  have tr: "train v n c w =
      (if s = Returned then (if v = Pretrain then save_snapshot w'' else (Returned, w''))
       else (s, w''))"
    using r(1) im lp cf by (cases s) (simp_all add: train_def Let_def emit_def)
  have i0: "run3_inv calls (cfg w) (count_ev is_update (trace w))
              (count_ev (is_env_step TrainEnv) (trace w)) 0 (?l, ?w3)"
    using r(2,3) w by (simp add: run3_inv_def replay_add_def emit_def)
  have su: "\<forall>j. \<not> Until 0 1 (int j)"
    by (simp add: Until_frames)
  have tu: "\<forall>j. Until 9 1 (int j) = (j < 9)"
    by (simp add: Until_frames)
  have f3: "fs_ready ?w3 = fs_ready w"
    by (intro fs_ready_cong) (simp_all add: replay_add_def emit_def)
  from train_loop_env3 [OF c su tu i0 _ lp]
  have lr: "s = Returned \<longrightarrow> run3_inv calls (cfg w) (count_ev is_update (trace w))
              (count_ev (is_env_step TrainEnv) (trace w)) 9 (l', w'')"
    and tot: "(\<forall>j<9. \<not> ?ee (int j)) \<and> 9 < n \<and> (v = Finetune \<or> fs_ready w) \<longrightarrow> s = Returned"
    by (simp_all add: f3)
  from train_loop_fs_ready [OF lp] have fr: "fs_ready w \<longrightarrow> fs_ready w''"
    by (simp add: f3)
  have sv: "global_step (saved w'') = global_step w''"
    "global_episode (saved w'') = global_episode w''"
    "train_env (saved w'') = train_env w''"
    "count_ev is_update (trace (saved w'')) = count_ev is_update (trace w'')"
    "count_ev (is_env_step TrainEnv) (trace (saved w''))
       = count_ev (is_env_step TrainEnv) (trace w'')"
    by (simp_all add: saved_def)
  have sr: "fst (save_snapshot w'') = Returned \<longrightarrow> snd (save_snapshot w'') = saved w''"
    using save_snapshot_Returned [of w'' "snd (save_snapshot w'')"]
    by (simp add: prod_eq_iff)
  have so: "fs_ready w'' \<longrightarrow> fst (save_snapshot w'') = Returned"
    using save_snapshot_ok [of w''] fs_ready_not_blocked [of w''] by auto
  show ?thesis
  proof (cases "s = Returned")
    case False
    with tr tot show ?thesis by auto
  next
    case True
    with lr have "run3_inv calls (cfg w) (count_ev is_update (trace w))
              (count_ev (is_env_step TrainEnv) (trace w)) 9 (l', w'')" by simp
    then have "global_step w'' = 9" "global_episode w'' = 2"
      "count_ev is_update (trace w'') = count_ev is_update (trace w) + 9"
      "count_ev (is_env_step TrainEnv) (trace w'')
         = count_ev (is_env_step TrainEnv) (trace w) + 9"
      "calls (train_env w'') = 9"
      by (simp_all add: run3_inv_def)
    with True tr sv sr so fr show ?thesis
      by (cases v) auto
  qed
qed

lemma demo_last_every_3rd: "last_every_3rd demo_collab (\<lambda>k. k)"
  by (simp add: last_every_3rd_def demo_collab_def env3_step_def env3_reset_def last_ts_def
      dvd_eq_mod_eq_0)

text \<open>
  C1, as the code has it. Take a fresh workspace (both counters 0), no seed frames,
  action repeat 1, a budget of 9 frames and a training environment that returns LAST on
  every third step call. When \<^verbatim>\<open>train\<close> returns, the global step is 9, the training
  environment has been stepped 9 times, the update has been invoked 9 times and the
  global episode is 2: the third LAST TimeStep comes back from the ninth step call, and
  the counter is incremented at the start of the next iteration, which the budget does
  not allow. \<^verbatim>\<open>train\<close> does return, with fuel for ten loop tests, when no evaluation
  falls due at the steps 0 to 8 and the file system is ready for the saves: no regular
  file has the name of the directory of the snapshots and no directory the name of a
  snapshot file.
\<close>

theorem train_nine_steps:
  assumes "last_every_3rd c calls"
    and "calls (train_env w) = 0" and "global_step w = 0" and "global_episode w = 0"
    and "num_seed_frames (cfg w) = 0" and "action_repeat (cfg w) = 1"
    and "num_train_frames (cfg w) = 9"
  shows "(fst (train Pretrain n c w) = Returned \<longrightarrow>
            global_step (snd (train Pretrain n c w)) = 9
            \<and> global_episode (snd (train Pretrain n c w)) = 2
            \<and> count_ev is_update (trace (snd (train Pretrain n c w)))
                = count_ev is_update (trace w) + 9
            \<and> count_ev (is_env_step TrainEnv) (trace (snd (train Pretrain n c w)))
                = count_ev (is_env_step TrainEnv) (trace w) + 9
            \<and> calls (train_env (snd (train Pretrain n c w))) = 9)
    \<and> ((\<forall>j<9. \<not> Every (eval_every_frames (cfg w)) 1 (int j)) \<and> 9 < n \<and> fs_ready w \<longrightarrow>
          fst (train Pretrain n c w) = Returned)"
  using train_env3 [OF assms, of Pretrain n] by simp

theorem train_nine_steps_witness:
  "fst (train Pretrain 10 demo_collab demo_ws) = Returned
   \<and> global_step (snd (train Pretrain 10 demo_collab demo_ws)) = 9
   \<and> global_episode (snd (train Pretrain 10 demo_collab demo_ws)) = 2
   \<and> count_ev is_update (trace (snd (train Pretrain 10 demo_collab demo_ws))) = 9
   \<and> count_ev (is_env_step TrainEnv) (trace (snd (train Pretrain 10 demo_collab demo_ws))) = 9"
proof -
  have w: "train_env demo_ws = 0" "global_step demo_ws = 0" "global_episode demo_ws = 0"
    "trace demo_ws = []"
    by (simp_all add: demo_ws_def)
  have cf: "num_seed_frames (cfg demo_ws) = 0" "action_repeat (cfg demo_ws) = 1"
    "num_train_frames (cfg demo_ws) = 9" "eval_every_frames (cfg demo_ws) = 10"
    by (simp_all add: demo_ws_def demo_cfg_def)
  have ne: "\<forall>j<9. \<not> Every (eval_every_frames (cfg demo_ws)) 1 (int j)"
    by (simp add: cf Every_def) presburger
  have n: "(9::nat) < 10" by simp
  have fr: "fs_ready demo_ws"
    by (simp add: fs_ready_def demo_ws_def)
  note t = train_nine_steps [OF demo_last_every_3rd w(1,2,3) cf(1,2,3), of 10]
  from t ne n fr have r: "fst (train Pretrain 10 demo_collab demo_ws) = Returned"
    by blast
  with t show ?thesis
    by (simp add: w)
qed

text \<open>
  C1 as stated fails: the run of the example, with 9 step calls of the training
  environment, ends with global episode 2, not 3.
\<close>

theorem train_nine_steps_counterexample:
  "num_seed_frames (cfg demo_ws) = 0 \<and> action_repeat (cfg demo_ws) = 1
   \<and> fst (train Pretrain 10 demo_collab demo_ws) = Returned
   \<and> global_step (snd (train Pretrain 10 demo_collab demo_ws)) = 9
   \<and> train_env (snd (train Pretrain 10 demo_collab demo_ws)) = 9
   \<and> global_episode (snd (train Pretrain 10 demo_collab demo_ws)) = 2"
  by code_simp

section \<open>Interrupting the entry points\<close>

lemma no_save_refl [simp]: "no_save w w"
  by (simp add: no_save_def)














end
